theory Spec2Isabelle
  imports Complex_Main
begin

text \<open>
  The home tab of the GaseraMux operator page: the core script (\<^verbatim>\<open>home_tab_core.js\<close>: alerts,
  phase handling, start countdown, the handler of progress events) and the visual script
  (jar grid, progress circles). Every script function is a function from the state of the
  page to the state of the page; the document, the module variables, the \<^verbatim>\<open>window\<close>
  properties and the session store are the fields of one record.
\<close>

section \<open>JavaScript values used by the home tab\<close>

text \<open>
  The scripts compute percentages with JavaScript numbers. Division by zero does not
  raise there: it yields an infinity or NaN. A number is therefore modelled as an exact
  rational or one of the three special values; rounding of finite results is not modelled.
  JSON cannot carry the special values, so the fields of an inbound event are finite:
  the index and count fields are integers, the two percent fields rationals.
\<close>

datatype jsnum = Num rat | PosInf | NegInf | NaN

text \<open>\<^verbatim>\<open>a / b\<close> for two finite operands (the only division in the scripts).\<close>

definition js_div :: "rat \<Rightarrow> rat \<Rightarrow> jsnum" where
  "js_div a b =
     (if b \<noteq> 0 then Num (a / b)
      else if a = 0 then NaN
      else if 0 < a then PosInf else NegInf)"

text \<open>\<^verbatim>\<open>x * c\<close> for a finite right operand.\<close>

fun js_mul :: "jsnum \<Rightarrow> rat \<Rightarrow> jsnum" where
  "js_mul (Num a) c = Num (a * c)"
| "js_mul PosInf c = (if 0 < c then PosInf else if c < 0 then NegInf else NaN)"
| "js_mul NegInf c = (if 0 < c then NegInf else if c < 0 then PosInf else NaN)"
| "js_mul NaN c = NaN"

text \<open>\<^verbatim>\<open>x || 0\<close>: the falsy numbers are 0 and NaN.\<close>

fun js_or0 :: "jsnum \<Rightarrow> jsnum" where
  "js_or0 (Num a) = Num a"
| "js_or0 NaN = Num 0"
| "js_or0 x = x"

text \<open>\<^verbatim>\<open>Math.min(c, x)\<close> and \<^verbatim>\<open>Math.max(c, x)\<close> for a finite \<open>c\<close>.\<close>

fun js_min :: "rat \<Rightarrow> jsnum \<Rightarrow> jsnum" where
  "js_min c (Num a) = Num (min c a)"
| "js_min c PosInf = Num c"
| "js_min c NegInf = NegInf"
| "js_min c NaN = NaN"

fun js_max :: "rat \<Rightarrow> jsnum \<Rightarrow> jsnum" where
  "js_max c (Num a) = Num (max c a)"
| "js_max c PosInf = PosInf"
| "js_max c NegInf = Num c"
| "js_max c NaN = NaN"

text \<open>\<^verbatim>\<open>x <= c\<close> for a finite \<open>c\<close>; every comparison with NaN is false.\<close>

fun js_le :: "jsnum \<Rightarrow> rat \<Rightarrow> bool" where
  "js_le (Num a) c = (a \<le> c)"
| "js_le PosInf c = False"
| "js_le NegInf c = True"
| "js_le NaN c = False"

text \<open>\<^verbatim>\<open>a % b\<close> on integers with \<open>b > 0\<close>: the remainder takes the sign of the dividend.\<close>

definition js_rem :: "int \<Rightarrow> int \<Rightarrow> int" where
  "js_rem a b = sgn a * (\<bar>a\<bar> mod \<bar>b\<bar>)"

section \<open>Progress circles\<close>

text \<open>
  The text of a circle is a template literal over numbers; it is kept as the pair of
  numbers (or the percent) it is built from rather than rendered.
\<close>

datatype label = Ratio int int | Percent jsnum

record circle =
  dasharray :: jsnum
  circleText :: label
  dataPct :: string

definition updateProgressCircle :: "jsnum \<Rightarrow> label \<Rightarrow> circle" where
  "updateProgressCircle percent txt =
     (let pct = js_max 0 (js_min 100 (js_or0 percent));
          colorRange =
            (if js_le pct 25 then ''0-25''
             else if js_le pct 50 then ''26-50''
             else if js_le pct 75 then ''51-75''
             else ''76-100'')
      in \<lparr>dasharray = pct, circleText = txt, dataPct = colorRange\<rparr>)"

text \<open>\<^verbatim>\<open>repeatTotal || 0\<close> and \<^verbatim>\<open>enabledCount || 0\<close> are the identity on integers.\<close>

definition updateRepeatInfo :: "int \<Rightarrow> int \<Rightarrow> circle" where
  "updateRepeatInfo rep repeatTotal =
     (let total = repeatTotal;
          pct = js_mul (js_div (of_int rep) (of_int total)) 100
      in updateProgressCircle pct (Ratio rep total))"

definition updateCycleProgress :: "rat \<Rightarrow> int \<Rightarrow> int \<Rightarrow> circle" where
  "updateCycleProgress pct stepIndex enabledCount =
     (let total = enabledCount;
          completedInCycle = (if 0 < total then js_rem stepIndex total else 0)
      in updateProgressCircle (Num pct) (Ratio completedInCycle total))"

definition updateCircularProgress :: "rat \<Rightarrow> circle" where
  "updateCircularProgress percent =
     (let pct = js_max 0 (js_min 100 (js_or0 (Num percent)))
      in updateProgressCircle pct (Percent pct))"

section \<open>Rendering and reading integers\<close>

text \<open>
  \<^verbatim>\<open>Number.prototype.toString\<close> on an integer and \<^verbatim>\<open>parseInt(s, 10)\<close>. The run
  counter is far below the magnitude where JavaScript switches to exponent notation or
  loses integer precision, so integers are rendered in plain decimal.
\<close>

definition digit_char :: "nat \<Rightarrow> char" where
  "digit_char d = char_of (48 + d)"

definition is_digit :: "char \<Rightarrow> bool" where
  "is_digit c = (48 \<le> (of_char c :: nat) \<and> (of_char c :: nat) \<le> 57)"

definition digit_val :: "char \<Rightarrow> nat" where
  "digit_val c = of_char c - 48"

definition is_space :: "char \<Rightarrow> bool" where
  "is_space c = ((of_char c :: nat) \<in> {9, 10, 11, 12, 13, 32})"

fun show_nat :: "nat \<Rightarrow> string" where
  "show_nat n = (if n < 10 then [digit_char n] else show_nat (n div 10) @ [digit_char (n mod 10)])"

declare show_nat.simps [simp del]

definition show_int :: "int \<Rightarrow> string" where
  "show_int i = (if i < 0 then CHR ''-'' # show_nat (nat (- i)) else show_nat (nat i))"

definition digits_val :: "string \<Rightarrow> nat" where
  "digits_val ds = foldl (\<lambda>acc c. acc * 10 + digit_val c) 0 ds"

text \<open>\<open>None\<close> stands for NaN: no digit after the optional sign.\<close>

definition parseInt10 :: "string \<Rightarrow> int option" where
  "parseInt10 s =
     (let t = dropWhile is_space s;
          neg = (t \<noteq> [] \<and> hd t = CHR ''-'');
          u = (if t \<noteq> [] \<and> (hd t = CHR ''-'' \<or> hd t = CHR ''+'') then tl t else t);
          ds = takeWhile is_digit u
      in if ds = [] then None
         else Some (if neg then - int (digits_val ds) else int (digits_val ds)))"

text \<open>The horizontal ellipsis of the button captions, as its three UTF-8 bytes.\<close>

definition ellipsis :: string where
  "ellipsis = [char_of (226::nat), char_of (128::nat), char_of (166::nat)]"

section \<open>State of the page\<close>

text \<open>One jar of the grid: the four classes the scripts put on it or take off it.\<close>

record jar =
  active :: bool
  sampling :: bool
  sampled :: bool
  paused :: bool

text \<open>
  A button: \<open>btnSuccess\<close> and \<open>btnWarning\<close> are the two classes the scripts switch,
  \<open>dataPhase\<close> and \<open>dataPreviousPhase\<close> the two \<^verbatim>\<open>dataset\<close> entries (\<open>None\<close>: never
  written; \<^verbatim>\<open>null\<close> is stored as the string \<open>null\<close>).
\<close>

record button =
  disabled :: bool
  btnText :: string
  btnSuccess :: bool
  btnWarning :: bool
  dataPhase :: "string option"
  dataPreviousPhase :: "string option"

text \<open>
  The toast on screen together with what its click listener closes over: the key and
  the dismissal object read when the toast was built.
\<close>

record toast =
  toastMessage :: string
  toastType :: string
  toastKey :: string
  toastDismissed :: "string \<rightharpoonup> bool"

text \<open>The outcome of a start request: \<^verbatim>\<open>{ok: true}\<close>, \<^verbatim>\<open>{ok: false, message}\<close>, or a rejected promise.\<close>

datatype response = RespOk | RespNotOk string | RespFailed

text \<open>
  The whole state the scripts read and write.
  \<^item> \<open>countdownTimer\<close>: the module variable holds an interval id (\<open>True\<close>) or \<^verbatim>\<open>null\<close>;
    \<open>timerLive\<close>: the interval that id names is still scheduled.
  \<^item> \<open>measurementCycle\<close>, \<open>dismissedAlerts\<close>: the two session-storage entries; for the
    second, \<open>None\<close> is an absent, empty or unparsable entry, all of which the script reads
    as the empty object, and \<^verbatim>\<open>JSON.stringify\<close> followed by \<^verbatim>\<open>JSON.parse\<close> is the identity.
  \<^item> \<open>measurementTiming\<close>: what \<^verbatim>\<open>getMeasurementTiming()\<close> returns; the timer script that
    defines it is not among the scripts modelled here, so its value is a parameter.
  \<^item> \<open>summaryCalls\<close>, \<open>startRequests\<close>, \<open>console\<close>: traces of the calls to
    \<^verbatim>\<open>showMeasurementSummaryToast\<close> (title, completed, total, type), of the start requests
    sent (the channel mask of the body) and of the console warnings.
\<close>

record ui =
  countdownTimer :: bool
  timerLive :: bool
  countdown :: int
  currentChannel :: int
  currentPhase :: "string option"
  isMeasurementRunning :: bool
  latestElapsedSeconds :: "int option"
  latestTtSeconds :: "int option"
  latestNextChannel :: "int option"
  latestCurrentChannel :: "int option"
  btnStart :: button
  btnAbort :: button
  jars :: "jar list"
  gridLocked :: bool
  channelBadge :: int
  channelCirclePhase :: string
  repeatCircle :: circle
  runCircle :: circle
  overallCircle :: circle
  centerToast :: "toast option"
  measurementCycle :: "string option"
  dismissedAlerts :: "(string \<rightharpoonup> bool) option"
  measurementTiming :: string
  summaryCalls :: "(string \<times> int \<times> int \<times> string) list"
  startRequests :: "bool list list"
  console :: "string list"

text \<open>An inbound progress event; every field may be absent.\<close>

record event =
  current_channel :: "int option"
  repeat_index :: "int option"
  repeat :: "int option"
  percent :: "rat option"
  overall_percent :: "rat option"
  phase :: "string option"
  step_index :: "int option"
  enabled_count :: "int option"
  repeat_total :: "int option"
  total_steps :: "int option"
  elapsed_seconds :: "int option"
  tt_seconds :: "int option"
  next_channel :: "int option"

definition TOTAL_JARS :: nat where
  "TOTAL_JARS = 31"

definition START_DELAY :: int where
  "START_DELAY = 5"

section \<open>Jar grid\<close>

text \<open>The grid is built with \<open>TOTAL_JARS\<close> jars of class \<^verbatim>\<open>jar\<close> only.\<close>

definition new_jar :: jar where
  "new_jar = \<lparr>active = False, sampling = False, sampled = False, paused = False\<rparr>"

text \<open>
  The click listener of jar \<open>i\<close> (0-based position in the grid); a position outside the
  grid has no listener.
\<close>

definition jarClick :: "nat \<Rightarrow> ui \<Rightarrow> ui" where
  "jarClick i s =
     (if isMeasurementRunning s then s
      else if i < length (jars s)
      then let j = jars s ! i
           in s\<lparr>jars := (jars s)[i := j\<lparr>active := \<not> active j, sampled := False, sampling := False\<rparr>]\<rparr>
      else s)"

definition setAllJars :: "bool \<Rightarrow> ui \<Rightarrow> ui" where
  "setAllJars state s = s\<lparr>jars := map (\<lambda>j. j\<lparr>active := state\<rparr>) (jars s)\<rparr>"

definition getJarMask :: "ui \<Rightarrow> bool list" where
  "getJarMask s = map active (jars s)"

text \<open>\<^verbatim>\<open>!!mask[i]\<close>: reading past the end of the mask gives \<^verbatim>\<open>undefined\<close>, hence \<open>False\<close>.\<close>

definition applyJarMask :: "bool list \<Rightarrow> ui \<Rightarrow> ui" where
  "applyJarMask msk s =
     s\<lparr>jars := map (\<lambda>(i, j). j\<lparr>active := (i < length msk \<and> msk ! i)\<rparr>)
                   (zip [0 ..< length (jars s)] (jars s))\<rparr>"

definition invertJars :: "ui \<Rightarrow> ui" where
  "invertJars s = s\<lparr>jars := map (\<lambda>j. j\<lparr>active := \<not> active j\<rparr>) (jars s)\<rparr>"

definition resetJarStates :: "ui \<Rightarrow> ui" where
  "resetJarStates s = s\<lparr>jars := map (\<lambda>j. j\<lparr>sampling := False, sampled := False\<rparr>) (jars s)\<rparr>"

text \<open>
  The selector \<^verbatim>\<open>.jar[data-id="${ch + 1}"]\<close> finds a jar exactly when \<open>ch\<close> is one of the
  positions of the grid.
\<close>

definition updateJarColors :: "int \<Rightarrow> string \<Rightarrow> ui \<Rightarrow> ui" where
  "updateJarColors ch ph s =
     (if \<not> (0 \<le> ch \<and> nat ch < length (jars s)) then s
      else let j = jars s ! nat ch
           in if \<not> active j then s
              else let j1 = j\<lparr>sampling := False, paused := False\<rparr>;
                       j2 = (if ph = ''MEASURING'' then j1\<lparr>sampled := False, sampling := True\<rparr>
                             else if ph = ''PAUSED'' then j1\<lparr>sampled := False, paused := True\<rparr>
                             else if ph = ''SWITCHING'' then j1\<lparr>sampled := True\<rparr>
                             else j1)
                   in s\<lparr>jars := (jars s)[nat ch := j2]\<rparr>)"

definition updateGridLock :: "ui \<Rightarrow> ui" where
  "updateGridLock s = s\<lparr>gridLocked := isMeasurementRunning s\<rparr>"

definition updateChannelInfo :: "int \<Rightarrow> string \<Rightarrow> ui \<Rightarrow> ui" where
  "updateChannelInfo ch ph s = s\<lparr>channelBadge := ch + 1, channelCirclePhase := ph\<rparr>"

section \<open>Alerts\<close>

text \<open>\<^verbatim>\<open>sessionStorage.getItem("measurementCycle") || "0"\<close>: absent or empty reads as \<open>0\<close>.\<close>

definition storedCycle :: "ui \<Rightarrow> string" where
  "storedCycle s = (case measurementCycle s of None \<Rightarrow> ''0'' | Some v \<Rightarrow> if v = [] then ''0'' else v)"

definition dismissKey :: "string \<Rightarrow> string \<Rightarrow> string \<Rightarrow> string" where
  "dismissKey currentCycle ty message = currentCycle @ '':'' @ (ty @ '':'' @ message)"

text \<open>
  \<open>showAlert\<close> of the core script. An acknowledged key returns at once; otherwise the
  toast replaces whatever toast is on screen.
\<close>

definition showAlert :: "string \<Rightarrow> string \<Rightarrow> ui \<Rightarrow> ui" where
  "showAlert message ty s =
     (let dismissed = (case dismissedAlerts s of None \<Rightarrow> Map.empty | Some m \<Rightarrow> m);
          k = dismissKey (storedCycle s) ty message
      in if dismissed k = Some True then s
         else s\<lparr>centerToast := Some \<lparr>toastMessage = message, toastType = ty,
                                      toastKey = k, toastDismissed = dismissed\<rparr>\<rparr>)"

text \<open>
  The click listener of the toast on screen: the toast fades and is removed, and the
  dismissal object of the closure, with the key added, is written back to the store.
\<close>

definition toastClick :: "ui \<Rightarrow> ui" where
  "toastClick s =
     (case centerToast s of
        None \<Rightarrow> s
      | Some t \<Rightarrow> s\<lparr>centerToast := None,
                     dismissedAlerts := Some ((toastDismissed t)(toastKey t \<mapsto> True))\<rparr>)"

text \<open>The template literal of the summary.\<close>

definition summaryHtml :: "string \<Rightarrow> int \<Rightarrow> int \<Rightarrow> string \<Rightarrow> string" where
  "summaryHtml title completedSteps totalSteps formattedTime =
     ''<strong>'' @ title @ ''</strong><br>Completed: '' @ show_int completedSteps
     @ ''/'' @ show_int totalSteps @ '' steps<br>Duration: '' @ formattedTime"

definition showMeasurementSummaryToast :: "string \<Rightarrow> int \<Rightarrow> int \<Rightarrow> string \<Rightarrow> ui \<Rightarrow> ui" where
  "showMeasurementSummaryToast title completedSteps totalSteps ty s =
     (let formattedTime = measurementTiming s;
          summary = summaryHtml title completedSteps totalSteps formattedTime
      in showAlert summary ty
           (s\<lparr>summaryCalls := summaryCalls s @ [(title, completedSteps, totalSteps, ty)]\<rparr>))"

section \<open>Phase handling\<close>

definition applyPhase :: "string \<Rightarrow> ui \<Rightarrow> ui" where
  "applyPhase ph s =
     (let s1 = (if countdownTimer s \<and> ph \<noteq> ''IDLE''
                then s\<lparr>timerLive := False, countdownTimer := False, countdown := START_DELAY\<rparr>
                else s);
          b = btnStart s1;
          b1 = b\<lparr>disabled := True,
                 dataPreviousPhase :=
                   Some (case dataPhase b of None \<Rightarrow> ''null''
                         | Some p \<Rightarrow> if p = [] then ''null'' else p),
                 dataPhase := Some ph,
                 btnSuccess := False, btnWarning := False\<rparr>;
          idle = (ph = ''IDLE'' \<or> ph = ''ABORTED'');
          b2 = (if idle
                then b1\<lparr>btnText := ''Start Measurement'', btnSuccess := True, disabled := False,
                        dataPhase := Some [], dataPreviousPhase := Some ''null''\<rparr>
                else b1);
          a = btnAbort s1;
          a1 = (if ph = ''ABORTED'' then a\<lparr>btnText := ''Aborted...''\<rparr> else a)
      in s1\<lparr>btnStart := b2, btnAbort := a1\<lparr>disabled := \<not> disabled b2\<rparr>\<rparr>)"

text \<open>
  Modelled from the spec: \<^verbatim>\<open>window.isActivePhase\<close> is defined in a script that is not
  among those modelled here. The spec calls MEASURING, PAUSED, SWITCHING and HOMING the active
  phases, and the handler's own fallback for a missing \<^verbatim>\<open>isActivePhase\<close> lists the same four.
\<close>

definition isActivePhase :: "string \<Rightarrow> bool" where
  "isActivePhase ph =
     (ph = ''MEASURING'' \<or> ph = ''PAUSED'' \<or> ph = ''SWITCHING'' \<or> ph = ''HOMING'')"

section \<open>Start countdown\<close>

text \<open>
  \<open>startMeasurement\<close> bumps the stored cycle and sends the request. The promise chain only
  warns on the console, so the eventual response is taken as an argument and its warning
  recorded at once. \<^verbatim>\<open>NaN + 1\<close> is rendered \<open>NaN\<close>.
\<close>

definition startMeasurement :: "response \<Rightarrow> ui \<Rightarrow> ui" where
  "startMeasurement resp s =
     (let currentCycle = parseInt10 (storedCycle s);
          next = (case currentCycle of None \<Rightarrow> ''NaN'' | Some n \<Rightarrow> show_int (n + 1));
          warn = (case resp of
                    RespOk \<Rightarrow> []
                  | RespNotOk m \<Rightarrow> [''[MEAS] Start error: '' @ m]
                  | RespFailed \<Rightarrow> [''[MEAS] Start failed:''])
      in s\<lparr>measurementCycle := Some next,
           btnStart := (btnStart s)\<lparr>btnText := ''Starting'' @ ellipsis, disabled := True\<rparr>,
           startRequests := startRequests s @ [getJarMask s],
           console := console s @ warn\<rparr>)"

text \<open>
  The click listener of the start button. \<^verbatim>\<open>classList.replace(a, b)\<close> does nothing when
  \<open>a\<close> is not on the element. (The browser delivers no click to a disabled button.)
\<close>

definition btnStartClick :: "ui \<Rightarrow> ui" where
  "btnStartClick s =
     (if isMeasurementRunning s then s
      else let s1 = s\<lparr>countdown := START_DELAY\<rparr>; b = btnStart s1
           in if countdownTimer s1
              then s1\<lparr>timerLive := False, countdownTimer := False,
                      btnStart := b\<lparr>btnText := ''Start Measurement'',
                                    btnSuccess := (btnSuccess b \<or> btnWarning b),
                                    btnWarning := False\<rparr>\<rparr>
              else s1\<lparr>btnStart := b\<lparr>btnWarning := (btnWarning b \<or> btnSuccess b),
                                    btnSuccess := False,
                                    btnText := ''Starting in '' @ show_int (countdown s1)
                                               @ ellipsis @ '' (Cancel)''\<rparr>,
                      btnAbort := (btnAbort s1)\<lparr>btnText := ''Abort''\<rparr>,
                      countdownTimer := True, timerLive := True\<rparr>)"

text \<open>
  One firing of the interval callback. A cleared interval never fires. \<open>resp\<close> is the
  response to the start request, should this tick send one.
\<close>

definition countdownTick :: "response \<Rightarrow> ui \<Rightarrow> ui" where
  "countdownTick resp s =
     (if \<not> timerLive s then s
      else if isMeasurementRunning s then s\<lparr>timerLive := False\<rparr>
      else let c = countdown s - 1;
               s1 = s\<lparr>countdown := c,
                      btnStart := (btnStart s)\<lparr>btnText :=
                        (if 0 < c then ''Starting in '' @ show_int c @ ellipsis @ '' (Cancel)''
                         else ''Starting'' @ ellipsis)\<rparr>\<rparr>
           in if c \<le> 0
              then startMeasurement resp (s1\<lparr>timerLive := False, countdownTimer := False\<rparr>)
              else s1)"

fun ticks :: "nat \<Rightarrow> response \<Rightarrow> ui \<Rightarrow> ui" where
  "ticks 0 resp s = s"
| "ticks (Suc n) resp s = ticks n resp (countdownTick resp s)"

section \<open>The event handler\<close>

text \<open>\<^verbatim>\<open>x ?? d\<close>: the default replaces an absent (\<^verbatim>\<open>null\<close> or \<^verbatim>\<open>undefined\<close>) value only.\<close>

definition nullish :: "'a option \<Rightarrow> 'a \<Rightarrow> 'a" where
  "nullish x d = (case x of None \<Rightarrow> d | Some v \<Rightarrow> v)"

text \<open>
  The body of \<^verbatim>\<open>if (phaseChanged) { ... }\<close>. \<^verbatim>\<open>updateETTTDisplay\<close> only repaints the
  timers from the latest values and is left out.
\<close>

definition onPhaseChanged :: "int \<Rightarrow> string \<Rightarrow> int \<Rightarrow> int \<Rightarrow> ui \<Rightarrow> ui" where
  "onPhaseChanged ch newPhase stepIndex totalSteps s =
     (let t1 = applyPhase newPhase s;
          t2 = updateJarColors ch newPhase t1;
          t3 = t2\<lparr>isMeasurementRunning := isActivePhase newPhase\<rparr>;
          t4 = updateGridLock t3;
          t5 = (if newPhase = ''ABORTED''
                then showMeasurementSummaryToast ''Measurement Aborted'' stepIndex totalSteps ''danger'' t4
                else if currentPhase t4 = Some ''SWITCHING'' \<and> newPhase = ''IDLE''
                then showMeasurementSummaryToast ''Measurement Complete'' totalSteps totalSteps ''success'' t4
                else t4)
      in t5\<lparr>currentPhase := Some newPhase\<rparr>)"

text \<open>
  \<open>SSEHandler\<close>. The payload \<open>None\<close> is a \<^verbatim>\<open>null\<close> or \<^verbatim>\<open>undefined\<close> payload: reading its
  first field throws, and the \<^verbatim>\<open>catch\<close> clause warns on the console. The elements the
  handler writes to exist and the helpers it calls are defined, so nothing after the field
  reads throws.
\<close>

definition SSEHandler :: "event option \<Rightarrow> ui \<Rightarrow> ui" where
  "SSEHandler payload s =
     (case payload of
        None \<Rightarrow> s\<lparr>console := console s @ [''[SSE] parse error:'']\<rparr>
      | Some d \<Rightarrow>
          let ch = nullish (current_channel d) 0;
              rep = nullish (repeat_index d) (nullish (repeat d) 0);
              pct = nullish (percent d) 0;
              overallPct = nullish (overall_percent d) 0;
              newPhase = nullish (phase d) ''IDLE'';
              stepIndex = nullish (step_index d) 0;
              enabledCount = nullish (enabled_count d) 0;
              repeatTotal = nullish (repeat_total d) 0;
              totalSteps = nullish (total_steps d) 0;
              s1 = s\<lparr>latestElapsedSeconds := Some (nullish (elapsed_seconds d) 0),
                     latestTtSeconds := Some (nullish (tt_seconds d) 0),
                     latestNextChannel := Some (nullish (next_channel d) 0),
                     latestCurrentChannel := Some ch\<rparr>;
              channelChanged = (currentChannel s1 \<noteq> ch);
              phaseChanged = (currentPhase s1 \<noteq> Some newPhase);
              s2 = (if channelChanged
                    then (let t = s1\<lparr>currentChannel := ch\<rparr>
                          in if phaseChanged \<and> ch = 0 then resetJarStates t else t)
                    else s1);
              s3 = (if phaseChanged then onPhaseChanged ch newPhase stepIndex totalSteps s2 else s2);
              s4 = (if phaseChanged \<or> channelChanged then updateChannelInfo ch newPhase s3 else s3)
          in s4\<lparr>repeatCircle := updateRepeatInfo rep repeatTotal,
                 runCircle := updateCycleProgress pct stepIndex enabledCount,
                 overallCircle := updateCircularProgress overallPct\<rparr>)"

text \<open>A run of events, oldest first.\<close>

fun events :: "event list \<Rightarrow> ui \<Rightarrow> ui" where
  "events [] s = s"
| "events (d # ds) s = events ds (SSEHandler (Some d) s)"

section \<open>The page after loading\<close>

text \<open>
  The values the scripts give their variables, a grid of fresh jars, an empty session
  store, and \<^verbatim>\<open>applyPhase("IDLE")\<close> from the \<^verbatim>\<open>DOMContentLoaded\<close> listener. What the markup
  puts on the page before the scripts run (captions, circles) is not scripted; neutral
  values stand for it.
\<close>

definition blank_button :: button where
  "blank_button = \<lparr>disabled = False, btnText = [], btnSuccess = False, btnWarning = False,
                    dataPhase = None, dataPreviousPhase = None\<rparr>"

definition blank_circle :: circle where
  "blank_circle = \<lparr>dasharray = Num 0, circleText = Ratio 0 0, dataPct = []\<rparr>"

definition scripts_loaded :: ui where
  "scripts_loaded =
     \<lparr>countdownTimer = False, timerLive = False, countdown = START_DELAY,
      currentChannel = - 1, currentPhase = None, isMeasurementRunning = False,
      latestElapsedSeconds = None, latestTtSeconds = None,
      latestNextChannel = None, latestCurrentChannel = None,
      btnStart = blank_button, btnAbort = blank_button,
      jars = replicate TOTAL_JARS new_jar, gridLocked = False,
      channelBadge = 0, channelCirclePhase = [],
      repeatCircle = blank_circle, runCircle = blank_circle, overallCircle = blank_circle,
      centerToast = None, measurementCycle = None, dismissedAlerts = None,
      measurementTiming = ''00:00'', summaryCalls = [], startRequests = [], console = []\<rparr>"

definition page_ready :: ui where
  "page_ready = applyPhase ''IDLE'' scripts_loaded"

text \<open>An event with every field absent, to be filled in by record update.\<close>

definition empty_event :: event where
  "empty_event =
     \<lparr>current_channel = None, repeat_index = None, repeat = None, percent = None,
      overall_percent = None, phase = None, step_index = None, enabled_count = None,
      repeat_total = None, total_steps = None, elapsed_seconds = None, tt_seconds = None,
      next_channel = None\<rparr>"

section \<open>Sample events and runs\<close>

text \<open>
  Modelled from the spec: the six phase names. The scripts compare phases as strings; the
  table \<^verbatim>\<open>window.PHASE\<close> that names them lives in a script that is not among those modelled.
\<close>

definition PHASES :: "string list" where
  "PHASES = [''IDLE'', ''MEASURING'', ''PAUSED'', ''SWITCHING'', ''HOMING'', ''ABORTED'']"

text \<open>
  A partial event completed, in the spec's words "each absent field replaced by its
  default": 0 for a number, IDLE for the phase. For the repeat index the handler falls back
  from \<^verbatim>\<open>repeat_index\<close> to \<^verbatim>\<open>repeat\<close> to 0.
\<close>

definition with_defaults :: "event \<Rightarrow> event" where
  "with_defaults d =
     \<lparr>current_channel = Some (nullish (current_channel d) 0),
      repeat_index = Some (nullish (repeat_index d) (nullish (repeat d) 0)),
      repeat = Some (nullish (repeat d) 0),
      percent = Some (nullish (percent d) 0),
      overall_percent = Some (nullish (overall_percent d) 0),
      phase = Some (nullish (phase d) ''IDLE''),
      step_index = Some (nullish (step_index d) 0),
      enabled_count = Some (nullish (enabled_count d) 0),
      repeat_total = Some (nullish (repeat_total d) 0),
      total_steps = Some (nullish (total_steps d) 0),
      elapsed_seconds = Some (nullish (elapsed_seconds d) 0),
      tt_seconds = Some (nullish (tt_seconds d) 0),
      next_channel = Some (nullish (next_channel d) 0)\<rparr>"

definition phase_event :: "string \<Rightarrow> int \<Rightarrow> event" where
  "phase_event ph ch = empty_event\<lparr>phase := Some ph, current_channel := Some ch\<rparr>"

text \<open>The page while channel 1 is being measured, and a later event of the same step.\<close>

definition measuring_state :: ui where
  "measuring_state = SSEHandler (Some (phase_event ''MEASURING'' 0)) page_ready"

definition later_event :: event where
  "later_event = (phase_event ''MEASURING'' 0)\<lparr>elapsed_seconds := Some 7\<rparr>"

definition aborted_event :: event where
  "aborted_event = (phase_event ''ABORTED'' 1)\<lparr>step_index := Some 1, total_steps := Some 2\<rparr>"

text \<open>
  The page after an aborted run whose summary was dismissed and which has gone back to
  IDLE: the same abort summary is acknowledged in this state.
\<close>

definition abort_dismissed_state :: ui where
  "abort_dismissed_state =
     SSEHandler (Some (phase_event ''IDLE'' 1))
       (toastClick (SSEHandler (Some aborted_event) page_ready))"

definition warmup_event :: event where
  "warmup_event = phase_event ''WARMUP'' 0"

text \<open>
  The run of scenario A: two selected channels, two steps, and the five events
  IDLE, MEASURING on channel 0, MEASURING on channel 1, SWITCHING on channel 1, IDLE.
  The last event still carries channel 1.
\<close>

definition scenario_mask :: "bool list" where
  "scenario_mask = True # True # replicate 29 False"

definition scenario_start :: ui where
  "scenario_start = applyJarMask scenario_mask page_ready"

definition scenario_event :: "string \<Rightarrow> int \<Rightarrow> event" where
  "scenario_event ph ch = (phase_event ph ch)\<lparr>total_steps := Some 2\<rparr>"

definition scenario_A :: ui where
  "scenario_A =
     events [scenario_event ''IDLE'' 0, scenario_event ''MEASURING'' 0,
             scenario_event ''MEASURING'' 1, scenario_event ''SWITCHING'' 1,
             scenario_event ''IDLE'' 1] scenario_start"

text \<open>
  Two runs that end with a marker on an unselected jar. In the first, jar 1 is selected,
  an event reports MEASURING on channel 0, and the button "None" is pressed. In the second,
  jar 3 is selected, the run pauses on channel 2 and is aborted with the channel back at 0,
  and jar 3 is clicked once the run is over.
\<close>

definition deselected_while_sampling :: ui where
  "deselected_while_sampling =
     setAllJars False (SSEHandler (Some (phase_event ''MEASURING'' 0)) (jarClick 0 page_ready))"

definition toggled_after_pause :: ui where
  "toggled_after_pause =
     jarClick 2 (events [phase_event ''PAUSED'' 2, phase_event ''ABORTED'' 0]
                   (jarClick 2 page_ready))"

text \<open>No unselected jar carries the class \<^verbatim>\<open>sampling\<close> or \<^verbatim>\<open>paused\<close>.\<close>

definition unselected_clean :: "ui \<Rightarrow> bool" where
  "unselected_clean s = list_all (\<lambda>j. active j \<or> (\<not> sampling j \<and> \<not> paused j)) (jars s)"

text \<open>An event that reports repeat 1 and no repeat total.\<close>

definition repeat_only_event :: event where
  "repeat_only_event = empty_event\<lparr>repeat_index := Some 1\<rparr>"

text \<open>
  The spec's "already marked acknowledged": the dismissal record read from the session
  store holds \<open>True\<close> under the key of the current cycle, the type and the message.
\<close>

definition acknowledged :: "ui \<Rightarrow> string \<Rightarrow> string \<Rightarrow> bool" where
  "acknowledged s ty m =
     (nullish (dismissedAlerts s) Map.empty (dismissKey (storedCycle s) ty m) = Some True)"

section \<open>Reachable states\<close>

text \<open>
  The states the page can reach: the freshly loaded page of a new session; a reload, which
  resets the scripts and the document but keeps the session store; and any handler run on
  a reachable state. Alerts may also be raised by other scripts, and the value of
  \<^verbatim>\<open>getMeasurementTiming()\<close> changes as time passes.
\<close>

inductive reachable :: "ui \<Rightarrow> bool" where
  loaded: "reachable page_ready"
| reloaded: "reachable s \<Longrightarrow>
     reachable (page_ready\<lparr>measurementCycle := measurementCycle s,
                            dismissedAlerts := dismissedAlerts s\<rparr>)"
| event: "reachable s \<Longrightarrow> reachable (SSEHandler p s)"
| start_click: "reachable s \<Longrightarrow> reachable (btnStartClick s)"
| tick: "reachable s \<Longrightarrow> reachable (countdownTick r s)"
| jar_click: "reachable s \<Longrightarrow> reachable (jarClick i s)"
| select_all: "reachable s \<Longrightarrow> reachable (setAllJars b s)"
| invert: "reachable s \<Longrightarrow> reachable (invertJars s)"
| apply_mask: "reachable s \<Longrightarrow> reachable (applyJarMask k s)"
| alert: "reachable s \<Longrightarrow> reachable (showAlert m ty s)"
| toast_click: "reachable s \<Longrightarrow> reachable (toastClick s)"
| time_passes: "reachable s \<Longrightarrow> reachable (s\<lparr>measurementTiming := t\<rparr>)"

text \<open>
  The invariant of the session store behind the deduplication: the stored cycle is the
  decimal rendering of a number \<open>n\<close>, and every acknowledged key, the key of the toast on
  screen and every key in that toast's copy of the record begin with the number of a run
  up to \<open>n\<close> and a colon.
\<close>

definition run_upto :: "int \<Rightarrow> string \<Rightarrow> bool" where
  "run_upto n k = (\<exists>i r. i \<le> n \<and> k = show_int i @ CHR '':'' # r)"

definition store_inv :: "int \<Rightarrow> ui \<Rightarrow> bool" where
  "store_inv n s =
     (storedCycle s = show_int n
      \<and> (\<forall>k. nullish (dismissedAlerts s) Map.empty k = Some True \<longrightarrow> run_upto n k)
      \<and> (\<forall>t. centerToast s = Some t \<longrightarrow>
             run_upto n (toastKey t) \<and> (\<forall>k. toastDismissed t k = Some True \<longrightarrow> run_upto n k)))"

section \<open>Frame lemmas\<close>

text \<open>Which parts of the state each operation leaves alone.\<close>

lemma applyPhase_frame [simp]:
  "currentChannel (applyPhase ph s) = currentChannel s"
  "currentPhase (applyPhase ph s) = currentPhase s"
  "isMeasurementRunning (applyPhase ph s) = isMeasurementRunning s"
  "latestElapsedSeconds (applyPhase ph s) = latestElapsedSeconds s"
  "latestTtSeconds (applyPhase ph s) = latestTtSeconds s"
  "latestNextChannel (applyPhase ph s) = latestNextChannel s"
  "latestCurrentChannel (applyPhase ph s) = latestCurrentChannel s"
  "jars (applyPhase ph s) = jars s"
  "gridLocked (applyPhase ph s) = gridLocked s"
  "channelBadge (applyPhase ph s) = channelBadge s"
  "channelCirclePhase (applyPhase ph s) = channelCirclePhase s"
  "repeatCircle (applyPhase ph s) = repeatCircle s"
  "runCircle (applyPhase ph s) = runCircle s"
  "overallCircle (applyPhase ph s) = overallCircle s"
  "centerToast (applyPhase ph s) = centerToast s"
  "measurementCycle (applyPhase ph s) = measurementCycle s"
  "dismissedAlerts (applyPhase ph s) = dismissedAlerts s"
  "measurementTiming (applyPhase ph s) = measurementTiming s"
  "summaryCalls (applyPhase ph s) = summaryCalls s"
  "startRequests (applyPhase ph s) = startRequests s"
  "console (applyPhase ph s) = console s"
  by (simp_all add: applyPhase_def Let_def)

lemma updateJarColors_frame [simp]:
  "countdownTimer (updateJarColors ch ph s) = countdownTimer s"
  "timerLive (updateJarColors ch ph s) = timerLive s"
  "countdown (updateJarColors ch ph s) = countdown s"
  "currentChannel (updateJarColors ch ph s) = currentChannel s"
  "currentPhase (updateJarColors ch ph s) = currentPhase s"
  "isMeasurementRunning (updateJarColors ch ph s) = isMeasurementRunning s"
  "latestElapsedSeconds (updateJarColors ch ph s) = latestElapsedSeconds s"
  "latestTtSeconds (updateJarColors ch ph s) = latestTtSeconds s"
  "latestNextChannel (updateJarColors ch ph s) = latestNextChannel s"
  "latestCurrentChannel (updateJarColors ch ph s) = latestCurrentChannel s"
  "btnStart (updateJarColors ch ph s) = btnStart s"
  "btnAbort (updateJarColors ch ph s) = btnAbort s"
  "gridLocked (updateJarColors ch ph s) = gridLocked s"
  "channelBadge (updateJarColors ch ph s) = channelBadge s"
  "channelCirclePhase (updateJarColors ch ph s) = channelCirclePhase s"
  "repeatCircle (updateJarColors ch ph s) = repeatCircle s"
  "runCircle (updateJarColors ch ph s) = runCircle s"
  "overallCircle (updateJarColors ch ph s) = overallCircle s"
  "centerToast (updateJarColors ch ph s) = centerToast s"
  "measurementCycle (updateJarColors ch ph s) = measurementCycle s"
  "dismissedAlerts (updateJarColors ch ph s) = dismissedAlerts s"
  "measurementTiming (updateJarColors ch ph s) = measurementTiming s"
  "summaryCalls (updateJarColors ch ph s) = summaryCalls s"
  "startRequests (updateJarColors ch ph s) = startRequests s"
  "console (updateJarColors ch ph s) = console s"
  by (simp_all add: updateJarColors_def Let_def)

lemma resetJarStates_frame [simp]:
  "countdownTimer (resetJarStates s) = countdownTimer s"
  "timerLive (resetJarStates s) = timerLive s"
  "countdown (resetJarStates s) = countdown s"
  "currentChannel (resetJarStates s) = currentChannel s"
  "currentPhase (resetJarStates s) = currentPhase s"
  "isMeasurementRunning (resetJarStates s) = isMeasurementRunning s"
  "latestElapsedSeconds (resetJarStates s) = latestElapsedSeconds s"
  "latestTtSeconds (resetJarStates s) = latestTtSeconds s"
  "latestNextChannel (resetJarStates s) = latestNextChannel s"
  "latestCurrentChannel (resetJarStates s) = latestCurrentChannel s"
  "btnStart (resetJarStates s) = btnStart s"
  "btnAbort (resetJarStates s) = btnAbort s"
  "gridLocked (resetJarStates s) = gridLocked s"
  "channelBadge (resetJarStates s) = channelBadge s"
  "channelCirclePhase (resetJarStates s) = channelCirclePhase s"
  "repeatCircle (resetJarStates s) = repeatCircle s"
  "runCircle (resetJarStates s) = runCircle s"
  "overallCircle (resetJarStates s) = overallCircle s"
  "centerToast (resetJarStates s) = centerToast s"
  "measurementCycle (resetJarStates s) = measurementCycle s"
  "dismissedAlerts (resetJarStates s) = dismissedAlerts s"
  "measurementTiming (resetJarStates s) = measurementTiming s"
  "summaryCalls (resetJarStates s) = summaryCalls s"
  "startRequests (resetJarStates s) = startRequests s"
  "console (resetJarStates s) = console s"
  by (simp_all add: resetJarStates_def)

lemma updateGridLock_frame [simp]:
  "countdownTimer (updateGridLock s) = countdownTimer s"
  "timerLive (updateGridLock s) = timerLive s"
  "countdown (updateGridLock s) = countdown s"
  "currentChannel (updateGridLock s) = currentChannel s"
  "currentPhase (updateGridLock s) = currentPhase s"
  "isMeasurementRunning (updateGridLock s) = isMeasurementRunning s"
  "latestElapsedSeconds (updateGridLock s) = latestElapsedSeconds s"
  "latestTtSeconds (updateGridLock s) = latestTtSeconds s"
  "latestNextChannel (updateGridLock s) = latestNextChannel s"
  "latestCurrentChannel (updateGridLock s) = latestCurrentChannel s"
  "btnStart (updateGridLock s) = btnStart s"
  "btnAbort (updateGridLock s) = btnAbort s"
  "jars (updateGridLock s) = jars s"
  "channelBadge (updateGridLock s) = channelBadge s"
  "channelCirclePhase (updateGridLock s) = channelCirclePhase s"
  "repeatCircle (updateGridLock s) = repeatCircle s"
  "runCircle (updateGridLock s) = runCircle s"
  "overallCircle (updateGridLock s) = overallCircle s"
  "centerToast (updateGridLock s) = centerToast s"
  "measurementCycle (updateGridLock s) = measurementCycle s"
  "dismissedAlerts (updateGridLock s) = dismissedAlerts s"
  "measurementTiming (updateGridLock s) = measurementTiming s"
  "summaryCalls (updateGridLock s) = summaryCalls s"
  "startRequests (updateGridLock s) = startRequests s"
  "console (updateGridLock s) = console s"
  by (simp_all add: updateGridLock_def)

lemma updateChannelInfo_frame [simp]:
  "countdownTimer (updateChannelInfo ch ph s) = countdownTimer s"
  "timerLive (updateChannelInfo ch ph s) = timerLive s"
  "countdown (updateChannelInfo ch ph s) = countdown s"
  "currentChannel (updateChannelInfo ch ph s) = currentChannel s"
  "currentPhase (updateChannelInfo ch ph s) = currentPhase s"
  "isMeasurementRunning (updateChannelInfo ch ph s) = isMeasurementRunning s"
  "latestElapsedSeconds (updateChannelInfo ch ph s) = latestElapsedSeconds s"
  "latestTtSeconds (updateChannelInfo ch ph s) = latestTtSeconds s"
  "latestNextChannel (updateChannelInfo ch ph s) = latestNextChannel s"
  "latestCurrentChannel (updateChannelInfo ch ph s) = latestCurrentChannel s"
  "btnStart (updateChannelInfo ch ph s) = btnStart s"
  "btnAbort (updateChannelInfo ch ph s) = btnAbort s"
  "jars (updateChannelInfo ch ph s) = jars s"
  "gridLocked (updateChannelInfo ch ph s) = gridLocked s"
  "repeatCircle (updateChannelInfo ch ph s) = repeatCircle s"
  "runCircle (updateChannelInfo ch ph s) = runCircle s"
  "overallCircle (updateChannelInfo ch ph s) = overallCircle s"
  "centerToast (updateChannelInfo ch ph s) = centerToast s"
  "measurementCycle (updateChannelInfo ch ph s) = measurementCycle s"
  "dismissedAlerts (updateChannelInfo ch ph s) = dismissedAlerts s"
  "measurementTiming (updateChannelInfo ch ph s) = measurementTiming s"
  "summaryCalls (updateChannelInfo ch ph s) = summaryCalls s"
  "startRequests (updateChannelInfo ch ph s) = startRequests s"
  "console (updateChannelInfo ch ph s) = console s"
  by (simp_all add: updateChannelInfo_def)

lemma showAlert_frame [simp]:
  "countdownTimer (showAlert m ty s) = countdownTimer s"
  "timerLive (showAlert m ty s) = timerLive s"
  "countdown (showAlert m ty s) = countdown s"
  "currentChannel (showAlert m ty s) = currentChannel s"
  "currentPhase (showAlert m ty s) = currentPhase s"
  "isMeasurementRunning (showAlert m ty s) = isMeasurementRunning s"
  "latestElapsedSeconds (showAlert m ty s) = latestElapsedSeconds s"
  "latestTtSeconds (showAlert m ty s) = latestTtSeconds s"
  "latestNextChannel (showAlert m ty s) = latestNextChannel s"
  "latestCurrentChannel (showAlert m ty s) = latestCurrentChannel s"
  "btnStart (showAlert m ty s) = btnStart s"
  "btnAbort (showAlert m ty s) = btnAbort s"
  "jars (showAlert m ty s) = jars s"
  "gridLocked (showAlert m ty s) = gridLocked s"
  "channelBadge (showAlert m ty s) = channelBadge s"
  "channelCirclePhase (showAlert m ty s) = channelCirclePhase s"
  "repeatCircle (showAlert m ty s) = repeatCircle s"
  "runCircle (showAlert m ty s) = runCircle s"
  "overallCircle (showAlert m ty s) = overallCircle s"
  "measurementCycle (showAlert m ty s) = measurementCycle s"
  "dismissedAlerts (showAlert m ty s) = dismissedAlerts s"
  "measurementTiming (showAlert m ty s) = measurementTiming s"
  "summaryCalls (showAlert m ty s) = summaryCalls s"
  "startRequests (showAlert m ty s) = startRequests s"
  "console (showAlert m ty s) = console s"
  by (simp_all add: showAlert_def Let_def)

lemma showSummary_frame [simp]:
  "countdownTimer (showMeasurementSummaryToast tt c n ty s) = countdownTimer s"
  "timerLive (showMeasurementSummaryToast tt c n ty s) = timerLive s"
  "countdown (showMeasurementSummaryToast tt c n ty s) = countdown s"
  "currentChannel (showMeasurementSummaryToast tt c n ty s) = currentChannel s"
  "currentPhase (showMeasurementSummaryToast tt c n ty s) = currentPhase s"
  "isMeasurementRunning (showMeasurementSummaryToast tt c n ty s) = isMeasurementRunning s"
  "latestElapsedSeconds (showMeasurementSummaryToast tt c n ty s) = latestElapsedSeconds s"
  "latestTtSeconds (showMeasurementSummaryToast tt c n ty s) = latestTtSeconds s"
  "latestNextChannel (showMeasurementSummaryToast tt c n ty s) = latestNextChannel s"
  "latestCurrentChannel (showMeasurementSummaryToast tt c n ty s) = latestCurrentChannel s"
  "btnStart (showMeasurementSummaryToast tt c n ty s) = btnStart s"
  "btnAbort (showMeasurementSummaryToast tt c n ty s) = btnAbort s"
  "jars (showMeasurementSummaryToast tt c n ty s) = jars s"
  "gridLocked (showMeasurementSummaryToast tt c n ty s) = gridLocked s"
  "channelBadge (showMeasurementSummaryToast tt c n ty s) = channelBadge s"
  "channelCirclePhase (showMeasurementSummaryToast tt c n ty s) = channelCirclePhase s"
  "repeatCircle (showMeasurementSummaryToast tt c n ty s) = repeatCircle s"
  "runCircle (showMeasurementSummaryToast tt c n ty s) = runCircle s"
  "overallCircle (showMeasurementSummaryToast tt c n ty s) = overallCircle s"
  "measurementCycle (showMeasurementSummaryToast tt c n ty s) = measurementCycle s"
  "dismissedAlerts (showMeasurementSummaryToast tt c n ty s) = dismissedAlerts s"
  "measurementTiming (showMeasurementSummaryToast tt c n ty s) = measurementTiming s"
  "startRequests (showMeasurementSummaryToast tt c n ty s) = startRequests s"
  "console (showMeasurementSummaryToast tt c n ty s) = console s"
  by (simp_all add: showMeasurementSummaryToast_def Let_def)

lemma jarClick_frame [simp]:
  "countdownTimer (jarClick i s) = countdownTimer s"
  "timerLive (jarClick i s) = timerLive s"
  "countdown (jarClick i s) = countdown s"
  "currentChannel (jarClick i s) = currentChannel s"
  "currentPhase (jarClick i s) = currentPhase s"
  "isMeasurementRunning (jarClick i s) = isMeasurementRunning s"
  "latestElapsedSeconds (jarClick i s) = latestElapsedSeconds s"
  "latestTtSeconds (jarClick i s) = latestTtSeconds s"
  "latestNextChannel (jarClick i s) = latestNextChannel s"
  "latestCurrentChannel (jarClick i s) = latestCurrentChannel s"
  "btnStart (jarClick i s) = btnStart s"
  "btnAbort (jarClick i s) = btnAbort s"
  "gridLocked (jarClick i s) = gridLocked s"
  "channelBadge (jarClick i s) = channelBadge s"
  "channelCirclePhase (jarClick i s) = channelCirclePhase s"
  "repeatCircle (jarClick i s) = repeatCircle s"
  "runCircle (jarClick i s) = runCircle s"
  "overallCircle (jarClick i s) = overallCircle s"
  "centerToast (jarClick i s) = centerToast s"
  "measurementCycle (jarClick i s) = measurementCycle s"
  "dismissedAlerts (jarClick i s) = dismissedAlerts s"
  "measurementTiming (jarClick i s) = measurementTiming s"
  "summaryCalls (jarClick i s) = summaryCalls s"
  "startRequests (jarClick i s) = startRequests s"
  "console (jarClick i s) = console s"
  by (simp_all add: jarClick_def Let_def)

lemma setAllJars_frame [simp]:
  "countdownTimer (setAllJars b s) = countdownTimer s"
  "timerLive (setAllJars b s) = timerLive s"
  "countdown (setAllJars b s) = countdown s"
  "currentChannel (setAllJars b s) = currentChannel s"
  "currentPhase (setAllJars b s) = currentPhase s"
  "isMeasurementRunning (setAllJars b s) = isMeasurementRunning s"
  "latestElapsedSeconds (setAllJars b s) = latestElapsedSeconds s"
  "latestTtSeconds (setAllJars b s) = latestTtSeconds s"
  "latestNextChannel (setAllJars b s) = latestNextChannel s"
  "latestCurrentChannel (setAllJars b s) = latestCurrentChannel s"
  "btnStart (setAllJars b s) = btnStart s"
  "btnAbort (setAllJars b s) = btnAbort s"
  "gridLocked (setAllJars b s) = gridLocked s"
  "channelBadge (setAllJars b s) = channelBadge s"
  "channelCirclePhase (setAllJars b s) = channelCirclePhase s"
  "repeatCircle (setAllJars b s) = repeatCircle s"
  "runCircle (setAllJars b s) = runCircle s"
  "overallCircle (setAllJars b s) = overallCircle s"
  "centerToast (setAllJars b s) = centerToast s"
  "measurementCycle (setAllJars b s) = measurementCycle s"
  "dismissedAlerts (setAllJars b s) = dismissedAlerts s"
  "measurementTiming (setAllJars b s) = measurementTiming s"
  "summaryCalls (setAllJars b s) = summaryCalls s"
  "startRequests (setAllJars b s) = startRequests s"
  "console (setAllJars b s) = console s"
  by (simp_all add: setAllJars_def)

lemma invertJars_frame [simp]:
  "countdownTimer (invertJars s) = countdownTimer s"
  "timerLive (invertJars s) = timerLive s"
  "countdown (invertJars s) = countdown s"
  "currentChannel (invertJars s) = currentChannel s"
  "currentPhase (invertJars s) = currentPhase s"
  "isMeasurementRunning (invertJars s) = isMeasurementRunning s"
  "latestElapsedSeconds (invertJars s) = latestElapsedSeconds s"
  "latestTtSeconds (invertJars s) = latestTtSeconds s"
  "latestNextChannel (invertJars s) = latestNextChannel s"
  "latestCurrentChannel (invertJars s) = latestCurrentChannel s"
  "btnStart (invertJars s) = btnStart s"
  "btnAbort (invertJars s) = btnAbort s"
  "gridLocked (invertJars s) = gridLocked s"
  "channelBadge (invertJars s) = channelBadge s"
  "channelCirclePhase (invertJars s) = channelCirclePhase s"
  "repeatCircle (invertJars s) = repeatCircle s"
  "runCircle (invertJars s) = runCircle s"
  "overallCircle (invertJars s) = overallCircle s"
  "centerToast (invertJars s) = centerToast s"
  "measurementCycle (invertJars s) = measurementCycle s"
  "dismissedAlerts (invertJars s) = dismissedAlerts s"
  "measurementTiming (invertJars s) = measurementTiming s"
  "summaryCalls (invertJars s) = summaryCalls s"
  "startRequests (invertJars s) = startRequests s"
  "console (invertJars s) = console s"
  by (simp_all add: invertJars_def)

lemma applyJarMask_frame [simp]:
  "countdownTimer (applyJarMask m s) = countdownTimer s"
  "timerLive (applyJarMask m s) = timerLive s"
  "countdown (applyJarMask m s) = countdown s"
  "currentChannel (applyJarMask m s) = currentChannel s"
  "currentPhase (applyJarMask m s) = currentPhase s"
  "isMeasurementRunning (applyJarMask m s) = isMeasurementRunning s"
  "latestElapsedSeconds (applyJarMask m s) = latestElapsedSeconds s"
  "latestTtSeconds (applyJarMask m s) = latestTtSeconds s"
  "latestNextChannel (applyJarMask m s) = latestNextChannel s"
  "latestCurrentChannel (applyJarMask m s) = latestCurrentChannel s"
  "btnStart (applyJarMask m s) = btnStart s"
  "btnAbort (applyJarMask m s) = btnAbort s"
  "gridLocked (applyJarMask m s) = gridLocked s"
  "channelBadge (applyJarMask m s) = channelBadge s"
  "channelCirclePhase (applyJarMask m s) = channelCirclePhase s"
  "repeatCircle (applyJarMask m s) = repeatCircle s"
  "runCircle (applyJarMask m s) = runCircle s"
  "overallCircle (applyJarMask m s) = overallCircle s"
  "centerToast (applyJarMask m s) = centerToast s"
  "measurementCycle (applyJarMask m s) = measurementCycle s"
  "dismissedAlerts (applyJarMask m s) = dismissedAlerts s"
  "measurementTiming (applyJarMask m s) = measurementTiming s"
  "summaryCalls (applyJarMask m s) = summaryCalls s"
  "startRequests (applyJarMask m s) = startRequests s"
  "console (applyJarMask m s) = console s"
  by (simp_all add: applyJarMask_def)

lemma toastClick_frame [simp]:
  "countdownTimer (toastClick s) = countdownTimer s"
  "timerLive (toastClick s) = timerLive s"
  "countdown (toastClick s) = countdown s"
  "currentChannel (toastClick s) = currentChannel s"
  "currentPhase (toastClick s) = currentPhase s"
  "isMeasurementRunning (toastClick s) = isMeasurementRunning s"
  "latestElapsedSeconds (toastClick s) = latestElapsedSeconds s"
  "latestTtSeconds (toastClick s) = latestTtSeconds s"
  "latestNextChannel (toastClick s) = latestNextChannel s"
  "latestCurrentChannel (toastClick s) = latestCurrentChannel s"
  "btnStart (toastClick s) = btnStart s"
  "btnAbort (toastClick s) = btnAbort s"
  "jars (toastClick s) = jars s"
  "gridLocked (toastClick s) = gridLocked s"
  "channelBadge (toastClick s) = channelBadge s"
  "channelCirclePhase (toastClick s) = channelCirclePhase s"
  "repeatCircle (toastClick s) = repeatCircle s"
  "runCircle (toastClick s) = runCircle s"
  "overallCircle (toastClick s) = overallCircle s"
  "measurementCycle (toastClick s) = measurementCycle s"
  "measurementTiming (toastClick s) = measurementTiming s"
  "summaryCalls (toastClick s) = summaryCalls s"
  "startRequests (toastClick s) = startRequests s"
  "console (toastClick s) = console s"
  by (simp_all add: toastClick_def split: option.split)

lemma startMeasurement_frame [simp]:
  "countdownTimer (startMeasurement resp s) = countdownTimer s"
  "timerLive (startMeasurement resp s) = timerLive s"
  "countdown (startMeasurement resp s) = countdown s"
  "currentChannel (startMeasurement resp s) = currentChannel s"
  "currentPhase (startMeasurement resp s) = currentPhase s"
  "isMeasurementRunning (startMeasurement resp s) = isMeasurementRunning s"
  "latestElapsedSeconds (startMeasurement resp s) = latestElapsedSeconds s"
  "latestTtSeconds (startMeasurement resp s) = latestTtSeconds s"
  "latestNextChannel (startMeasurement resp s) = latestNextChannel s"
  "latestCurrentChannel (startMeasurement resp s) = latestCurrentChannel s"
  "btnAbort (startMeasurement resp s) = btnAbort s"
  "jars (startMeasurement resp s) = jars s"
  "gridLocked (startMeasurement resp s) = gridLocked s"
  "channelBadge (startMeasurement resp s) = channelBadge s"
  "channelCirclePhase (startMeasurement resp s) = channelCirclePhase s"
  "repeatCircle (startMeasurement resp s) = repeatCircle s"
  "runCircle (startMeasurement resp s) = runCircle s"
  "overallCircle (startMeasurement resp s) = overallCircle s"
  "centerToast (startMeasurement resp s) = centerToast s"
  "dismissedAlerts (startMeasurement resp s) = dismissedAlerts s"
  "measurementTiming (startMeasurement resp s) = measurementTiming s"
  "summaryCalls (startMeasurement resp s) = summaryCalls s"
  by (simp_all add: startMeasurement_def Let_def)

lemma btnStartClick_frame [simp]:
  "currentChannel (btnStartClick s) = currentChannel s"
  "currentPhase (btnStartClick s) = currentPhase s"
  "isMeasurementRunning (btnStartClick s) = isMeasurementRunning s"
  "latestElapsedSeconds (btnStartClick s) = latestElapsedSeconds s"
  "latestTtSeconds (btnStartClick s) = latestTtSeconds s"
  "latestNextChannel (btnStartClick s) = latestNextChannel s"
  "latestCurrentChannel (btnStartClick s) = latestCurrentChannel s"
  "jars (btnStartClick s) = jars s"
  "gridLocked (btnStartClick s) = gridLocked s"
  "channelBadge (btnStartClick s) = channelBadge s"
  "channelCirclePhase (btnStartClick s) = channelCirclePhase s"
  "repeatCircle (btnStartClick s) = repeatCircle s"
  "runCircle (btnStartClick s) = runCircle s"
  "overallCircle (btnStartClick s) = overallCircle s"
  "centerToast (btnStartClick s) = centerToast s"
  "measurementCycle (btnStartClick s) = measurementCycle s"
  "dismissedAlerts (btnStartClick s) = dismissedAlerts s"
  "measurementTiming (btnStartClick s) = measurementTiming s"
  "summaryCalls (btnStartClick s) = summaryCalls s"
  "startRequests (btnStartClick s) = startRequests s"
  "console (btnStartClick s) = console s"
  by (simp_all add: btnStartClick_def Let_def)

lemma countdownTick_frame [simp]:
  "currentChannel (countdownTick resp s) = currentChannel s"
  "currentPhase (countdownTick resp s) = currentPhase s"
  "isMeasurementRunning (countdownTick resp s) = isMeasurementRunning s"
  "jars (countdownTick resp s) = jars s"
  "centerToast (countdownTick resp s) = centerToast s"
  "dismissedAlerts (countdownTick resp s) = dismissedAlerts s"
  "summaryCalls (countdownTick resp s) = summaryCalls s"
  by (simp_all add: countdownTick_def Let_def)

lemma storedCycle_cong:
  "measurementCycle t = measurementCycle s \<Longrightarrow> storedCycle t = storedCycle s"
  by (simp add: storedCycle_def)

lemma showSummary_calls [simp]:
  "summaryCalls (showMeasurementSummaryToast tt c n ty s) = summaryCalls s @ [(tt, c, n, ty)]"
  by (simp add: showMeasurementSummaryToast_def Let_def)

lemma showAlert_toast:
  "centerToast (showAlert m ty s) =
     (if nullish (dismissedAlerts s) Map.empty (dismissKey (storedCycle s) ty m) = Some True
      then centerToast s
      else Some \<lparr>toastMessage = m, toastType = ty, toastKey = dismissKey (storedCycle s) ty m,
                  toastDismissed = nullish (dismissedAlerts s) Map.empty\<rparr>)"
  by (simp add: showAlert_def Let_def nullish_def)

lemma nullish_simps [simp]:
  "nullish None d = d"
  "nullish (Some v) d = v"
  by (simp_all add: nullish_def)

lemma showSummary_toast:
  "centerToast (showMeasurementSummaryToast tt c n ty s) =
     centerToast (showAlert (summaryHtml tt c n (measurementTiming s)) ty s)"
  by (simp add: showMeasurementSummaryToast_def Let_def showAlert_toast storedCycle_def)

lemma onPhaseChanged_calls:
  "summaryCalls (onPhaseChanged ch ph st tot s) = summaryCalls s @
     (if ph = ''ABORTED'' then [(''Measurement Aborted'', st, tot, ''danger'')]
      else if currentPhase s = Some ''SWITCHING'' \<and> ph = ''IDLE''
      then [(''Measurement Complete'', tot, tot, ''success'')]
      else [])"
  by (simp add: onPhaseChanged_def Let_def)

lemma onPhaseChanged_toast:
  "centerToast (onPhaseChanged ch ph st tot s) =
     (if ph = ''ABORTED''
      then centerToast (showAlert (summaryHtml ''Measurement Aborted'' st tot (measurementTiming s)) ''danger'' s)
      else if currentPhase s = Some ''SWITCHING'' \<and> ph = ''IDLE''
      then centerToast (showAlert (summaryHtml ''Measurement Complete'' tot tot (measurementTiming s)) ''success'' s)
      else centerToast s)"
  by (simp add: onPhaseChanged_def Let_def showSummary_toast showAlert_toast storedCycle_def)

lemma onPhaseChanged_frame [simp]:
  "currentChannel (onPhaseChanged ch ph st tot s) = currentChannel s"
  "latestElapsedSeconds (onPhaseChanged ch ph st tot s) = latestElapsedSeconds s"
  "latestTtSeconds (onPhaseChanged ch ph st tot s) = latestTtSeconds s"
  "latestNextChannel (onPhaseChanged ch ph st tot s) = latestNextChannel s"
  "latestCurrentChannel (onPhaseChanged ch ph st tot s) = latestCurrentChannel s"
  "channelBadge (onPhaseChanged ch ph st tot s) = channelBadge s"
  "channelCirclePhase (onPhaseChanged ch ph st tot s) = channelCirclePhase s"
  "repeatCircle (onPhaseChanged ch ph st tot s) = repeatCircle s"
  "runCircle (onPhaseChanged ch ph st tot s) = runCircle s"
  "overallCircle (onPhaseChanged ch ph st tot s) = overallCircle s"
  "measurementCycle (onPhaseChanged ch ph st tot s) = measurementCycle s"
  "dismissedAlerts (onPhaseChanged ch ph st tot s) = dismissedAlerts s"
  "measurementTiming (onPhaseChanged ch ph st tot s) = measurementTiming s"
  "startRequests (onPhaseChanged ch ph st tot s) = startRequests s"
  "console (onPhaseChanged ch ph st tot s) = console s"
  by (simp_all add: onPhaseChanged_def Let_def)

lemma onPhaseChanged_phase [simp]:
  "currentPhase (onPhaseChanged ch ph st tot s) = Some ph"
  by (simp add: onPhaseChanged_def Let_def)

lemma handler_frame [simp]:
  "measurementCycle (SSEHandler p s) = measurementCycle s"
  "dismissedAlerts (SSEHandler p s) = dismissedAlerts s"
  "measurementTiming (SSEHandler p s) = measurementTiming s"
  "startRequests (SSEHandler p s) = startRequests s"
  by (simp_all add: SSEHandler_def Let_def split: option.split)

lemma handler_phase: "currentPhase (SSEHandler (Some d) s) = Some (nullish (phase d) ''IDLE'')"
  by (simp add: SSEHandler_def Let_def)

lemma handler_channel: "currentChannel (SSEHandler (Some d) s) = nullish (current_channel d) 0"
  by (simp add: SSEHandler_def Let_def)

lemma handler_latest:
  "latestElapsedSeconds (SSEHandler (Some d) s) = Some (nullish (elapsed_seconds d) 0)"
  "latestTtSeconds (SSEHandler (Some d) s) = Some (nullish (tt_seconds d) 0)"
  "latestNextChannel (SSEHandler (Some d) s) = Some (nullish (next_channel d) 0)"
  "latestCurrentChannel (SSEHandler (Some d) s) = Some (nullish (current_channel d) 0)"
  by (simp_all add: SSEHandler_def Let_def)

lemma handler_circles:
  "repeatCircle (SSEHandler (Some d) s) =
     updateRepeatInfo (nullish (repeat_index d) (nullish (repeat d) 0)) (nullish (repeat_total d) 0)"
  "runCircle (SSEHandler (Some d) s) =
     updateCycleProgress (nullish (percent d) 0) (nullish (step_index d) 0) (nullish (enabled_count d) 0)"
  "overallCircle (SSEHandler (Some d) s) = updateCircularProgress (nullish (overall_percent d) 0)"
  by (simp_all add: SSEHandler_def Let_def)

lemma handler_console: "console (SSEHandler (Some d) s) = console s"
  by (simp add: SSEHandler_def Let_def)

text \<open>An event that repeats the stored channel and phase takes neither conditional branch.\<close>

lemma handler_same:
  assumes "currentChannel s = nullish (current_channel d) 0"
      and "currentPhase s = Some (nullish (phase d) ''IDLE'')"
  shows "SSEHandler (Some d) s =
           s\<lparr>latestElapsedSeconds := Some (nullish (elapsed_seconds d) 0),
             latestTtSeconds := Some (nullish (tt_seconds d) 0),
             latestNextChannel := Some (nullish (next_channel d) 0),
             latestCurrentChannel := Some (nullish (current_channel d) 0),
             repeatCircle := updateRepeatInfo (nullish (repeat_index d) (nullish (repeat d) 0))
                               (nullish (repeat_total d) 0),
             runCircle := updateCycleProgress (nullish (percent d) 0) (nullish (step_index d) 0)
                            (nullish (enabled_count d) 0),
             overallCircle := updateCircularProgress (nullish (overall_percent d) 0)\<rparr>"
  using assms by (simp add: SSEHandler_def Let_def)

lemma handler_idem: "SSEHandler (Some d) (SSEHandler (Some d) s) = SSEHandler (Some d) s"
proof -
  let ?t = "SSEHandler (Some d) s"
  have "SSEHandler (Some d) ?t =
          ?t\<lparr>latestElapsedSeconds := Some (nullish (elapsed_seconds d) 0),
             latestTtSeconds := Some (nullish (tt_seconds d) 0),
             latestNextChannel := Some (nullish (next_channel d) 0),
             latestCurrentChannel := Some (nullish (current_channel d) 0),
             repeatCircle := updateRepeatInfo (nullish (repeat_index d) (nullish (repeat d) 0))
                               (nullish (repeat_total d) 0),
             runCircle := updateCycleProgress (nullish (percent d) 0) (nullish (step_index d) 0)
                            (nullish (enabled_count d) 0),
             overallCircle := updateCircularProgress (nullish (overall_percent d) 0)\<rparr>"
    by (rule handler_same) (simp_all add: handler_phase handler_channel)
  also have "\<dots> = ?t"
    by (rule ui.equality) (simp_all add: handler_latest handler_circles)
  finally show ?thesis .
qed

lemma page_ready_fields [simp]:
  "currentPhase page_ready = None"
  "currentChannel page_ready = - 1"
  "summaryCalls page_ready = []"
  "centerToast page_ready = None"
  "measurementCycle page_ready = None"
  "dismissedAlerts page_ready = None"
  "measurementTiming page_ready = ''00:00''"
  "startRequests page_ready = []"
  "isMeasurementRunning page_ready = False"
  "latestElapsedSeconds page_ready = None"
  "console page_ready = []"
  by (simp_all add: page_ready_def scripts_loaded_def)

lemma phase_event_fields [simp]:
  "phase (phase_event ph ch) = Some ph"
  "current_channel (phase_event ph ch) = Some ch"
  "step_index (phase_event ph ch) = None"
  "total_steps (phase_event ph ch) = None"
  "elapsed_seconds (phase_event ph ch) = None"
  "tt_seconds (phase_event ph ch) = None"
  "next_channel (phase_event ph ch) = None"
  "repeat_index (phase_event ph ch) = None"
  "repeat (phase_event ph ch) = None"
  "repeat_total (phase_event ph ch) = None"
  "percent (phase_event ph ch) = None"
  "overall_percent (phase_event ph ch) = None"
  "enabled_count (phase_event ph ch) = None"
  by (simp_all add: phase_event_def empty_event_def)

section \<open>Run-summary notifications\<close>

text \<open>
  Claim C1. When the phase of an event differs from the stored phase, the handler calls
  \<^verbatim>\<open>showMeasurementSummaryToast\<close> exactly once if the new phase is ABORTED (title
  "Measurement Aborted", completed = step index, total = total steps, type danger), exactly
  once if the stored phase was SWITCHING and the new phase is IDLE (title "Measurement
  Complete", total steps as both counts, type success), and not at all on any other
  transition. When a summary is due and its key (stored cycle, type, message) is not
  acknowledged, the toast on screen afterwards carries that type and the message with the
  title in bold, "Completed: completed/total steps" and the duration; when the key is
  acknowledged, or no summary is due, the toast on screen is the one from before.
\<close>

theorem summary_exactly_on_abort_or_completion:
  fixes s :: ui and d :: event
  defines "ph \<equiv> nullish (phase d) ''IDLE''"
      and "abortedMsg \<equiv> ''<strong>Measurement Aborted</strong><br>Completed: ''
             @ show_int (nullish (step_index d) 0) @ ''/'' @ show_int (nullish (total_steps d) 0)
             @ '' steps<br>Duration: '' @ measurementTiming s"
      and "completeMsg \<equiv> ''<strong>Measurement Complete</strong><br>Completed: ''
             @ show_int (nullish (total_steps d) 0) @ ''/'' @ show_int (nullish (total_steps d) 0)
             @ '' steps<br>Duration: '' @ measurementTiming s"
      and "acked \<equiv> nullish (dismissedAlerts s) Map.empty"
  assumes "currentPhase s \<noteq> Some ph"
  shows "summaryCalls (SSEHandler (Some d) s) = summaryCalls s @
           (if ph = ''ABORTED''
            then [(''Measurement Aborted'', nullish (step_index d) 0, nullish (total_steps d) 0,
                   ''danger'')]
            else if currentPhase s = Some ''SWITCHING'' \<and> ph = ''IDLE''
            then [(''Measurement Complete'', nullish (total_steps d) 0, nullish (total_steps d) 0,
                   ''success'')]
            else [])
         \<and> centerToast (SSEHandler (Some d) s) =
           (if ph = ''ABORTED''
            then (if acked (storedCycle s @ '':danger:'' @ abortedMsg) = Some True
                  then centerToast s
                  else Some \<lparr>toastMessage = abortedMsg, toastType = ''danger'',
                              toastKey = storedCycle s @ '':danger:'' @ abortedMsg,
                              toastDismissed = acked\<rparr>)
            else if currentPhase s = Some ''SWITCHING'' \<and> ph = ''IDLE''
            then (if acked (storedCycle s @ '':success:'' @ completeMsg) = Some True
                  then centerToast s
                  else Some \<lparr>toastMessage = completeMsg, toastType = ''success'',
                              toastKey = storedCycle s @ '':success:'' @ completeMsg,
                              toastDismissed = acked\<rparr>)
            else centerToast s)"
  using assms(5) unfolding assms(1-4)
  by (simp add: SSEHandler_def Let_def onPhaseChanged_calls onPhaseChanged_toast showAlert_toast
        summaryHtml_def dismissKey_def storedCycle_def)

text \<open>
  Scenario B's last event, aborted at step 1 of 2: on a fresh page the toast shows the
  summary; once that toast has been dismissed and the page is back at IDLE, the same abort
  is counted as a call but puts nothing on screen.
\<close>

theorem summary_on_abort_witness:
  "currentPhase page_ready \<noteq> Some (nullish (phase aborted_event) ''IDLE'')
   \<and> summaryCalls (SSEHandler (Some aborted_event) page_ready)
       = [(''Measurement Aborted'', 1, 2, ''danger'')]
   \<and> map_option toastMessage (centerToast (SSEHandler (Some aborted_event) page_ready))
       = Some ''<strong>Measurement Aborted</strong><br>Completed: 1/2 steps<br>Duration: 00:00''
   \<and> map_option toastType (centerToast (SSEHandler (Some aborted_event) page_ready))
       = Some ''danger''
   \<and> currentPhase abort_dismissed_state \<noteq> Some (nullish (phase aborted_event) ''IDLE'')
   \<and> centerToast abort_dismissed_state = None
   \<and> summaryCalls (SSEHandler (Some aborted_event) abort_dismissed_state)
       = [(''Measurement Aborted'', 1, 2, ''danger''), (''Measurement Aborted'', 1, 2, ''danger'')]
   \<and> centerToast (SSEHandler (Some aborted_event) abort_dismissed_state) = None"
proof -
  have h1: "currentPhase page_ready \<noteq> Some (nullish (phase aborted_event) ''IDLE'')"
    by code_simp
  have h2: "currentPhase abort_dismissed_state \<noteq> Some (nullish (phase aborted_event) ''IDLE'')"
    by code_simp
  note t1 = summary_exactly_on_abort_or_completion [OF h1]
  note t2 = summary_exactly_on_abort_or_completion [OF h2]
  have e: "nullish (phase aborted_event) ''IDLE'' = ''ABORTED''"
    "nullish (step_index aborted_event) 0 = 1" "nullish (total_steps aborted_event) 0 = 2"
    by (simp_all add: aborted_event_def)
  have n: "show_int 1 = ''1''" "show_int 2 = ''2''"
    by code_simp+
  have c: "centerToast abort_dismissed_state = None"
    "summaryCalls abort_dismissed_state = [(''Measurement Aborted'', 1, 2, ''danger'')]"
    "storedCycle abort_dismissed_state = ''0''"
    "measurementTiming abort_dismissed_state = ''00:00''"
    by code_simp+
  have k: "nullish (dismissedAlerts abort_dismissed_state) Map.empty
             ''0:danger:<strong>Measurement Aborted</strong><br>Completed: 1/2 steps<br>Duration: 00:00''
            = Some True"
    by code_simp
  from t1 have "summaryCalls (SSEHandler (Some aborted_event) page_ready)
       = [(''Measurement Aborted'', 1, 2, ''danger'')]
   \<and> map_option toastMessage (centerToast (SSEHandler (Some aborted_event) page_ready))
       = Some ''<strong>Measurement Aborted</strong><br>Completed: 1/2 steps<br>Duration: 00:00''
   \<and> map_option toastType (centerToast (SSEHandler (Some aborted_event) page_ready))
       = Some ''danger''"
    by (simp add: e n)
  moreover from t2 k have "summaryCalls (SSEHandler (Some aborted_event) abort_dismissed_state)
       = [(''Measurement Aborted'', 1, 2, ''danger''), (''Measurement Aborted'', 1, 2, ''danger'')]
   \<and> centerToast (SSEHandler (Some aborted_event) abort_dismissed_state) = None"
    by (simp add: e n c)
  ultimately show ?thesis using h1 h2 c by simp
qed


section \<open>Duplicate events\<close>

text \<open>
  Claim C2, as amended. An event that carries the stored channel and phase changes the
  four latest-value fields (elapsed seconds, time to target, next channel, current channel)
  and the three progress circles and nothing else: no stored channel or phase, no button or
  lock change, no jar recolouring, no notification. Hence delivering any event a second
  time in a row changes nothing at all, and in particular adds no run-summary call.
\<close>

theorem duplicate_event_touches_snapshot_and_circles_only:
  "(currentChannel s = nullish (current_channel d) 0
      \<and> currentPhase s = Some (nullish (phase d) ''IDLE'')
      \<longrightarrow> SSEHandler (Some d) s =
           s\<lparr>latestElapsedSeconds := Some (nullish (elapsed_seconds d) 0),
             latestTtSeconds := Some (nullish (tt_seconds d) 0),
             latestNextChannel := Some (nullish (next_channel d) 0),
             latestCurrentChannel := Some (nullish (current_channel d) 0),
             repeatCircle := updateRepeatInfo (nullish (repeat_index d) (nullish (repeat d) 0))
                               (nullish (repeat_total d) 0),
             runCircle := updateCycleProgress (nullish (percent d) 0) (nullish (step_index d) 0)
                            (nullish (enabled_count d) 0),
             overallCircle := updateCircularProgress (nullish (overall_percent d) 0)\<rparr>)
   \<and> SSEHandler (Some d) (SSEHandler (Some d) s) = SSEHandler (Some d) s
   \<and> summaryCalls (SSEHandler (Some d) (SSEHandler (Some d) s))
       = summaryCalls (SSEHandler (Some d) s)"
  using handler_same [of s d] by (simp add: handler_idem)

theorem duplicate_event_witness:
  "currentChannel measuring_state = 0 \<and> currentPhase measuring_state = Some ''MEASURING''
   \<and> SSEHandler (Some later_event) measuring_state =
       measuring_state\<lparr>latestElapsedSeconds := Some 7, latestTtSeconds := Some 0,
         latestNextChannel := Some 0, latestCurrentChannel := Some 0,
         repeatCircle := updateRepeatInfo 0 0, runCircle := updateCycleProgress 0 0 0,
         overallCircle := updateCircularProgress 0\<rparr>"
  using duplicate_event_touches_snapshot_and_circles_only [of measuring_state later_event]
  by (simp add: measuring_state_def later_event_def handler_channel handler_phase)

text \<open>
  The claim as first stated allows the circles only: a second event with the stored
  channel and phase but a new elapsed time moves the stored elapsed seconds from 0 to 7.
\<close>

theorem duplicate_event_moves_elapsed_seconds:
  "currentChannel measuring_state = nullish (current_channel later_event) 0
   \<and> currentPhase measuring_state = Some (nullish (phase later_event) ''IDLE'')
   \<and> latestElapsedSeconds measuring_state = Some 0
   \<and> latestElapsedSeconds (SSEHandler (Some later_event) measuring_state) = Some 7"
  by (simp add: measuring_state_def later_event_def handler_channel handler_phase handler_latest)

section \<open>Unrecognized phases\<close>

text \<open>
  Claim C3, as amended. The stored phase after an event is the event's phase string as it
  came, whether or not it is one of the six names; only an absent phase is replaced by IDLE.
\<close>

theorem phase_stored_verbatim:
  "currentPhase (SSEHandler (Some d) s) = Some (case phase d of None \<Rightarrow> ''IDLE'' | Some p \<Rightarrow> p)"
  by (simp add: handler_phase nullish_def)

theorem phase_stored_verbatim_witness:
  "currentPhase (SSEHandler (Some empty_event) measuring_state) = Some ''IDLE''
   \<and> currentPhase (SSEHandler (Some (phase_event ''HOMING'' 3)) measuring_state) = Some ''HOMING''"
  using phase_stored_verbatim [of empty_event measuring_state]
        phase_stored_verbatim [of "phase_event ''HOMING'' 3" measuring_state]
  by (simp add: empty_event_def)

text \<open>An event with the phase WARMUP leaves WARMUP, not IDLE, as the stored phase.\<close>

theorem unrecognized_phase_not_coerced:
  "currentPhase (SSEHandler (Some warmup_event) page_ready) = Some ''WARMUP''
   \<and> ''WARMUP'' \<notin> set PHASES"
  by (simp add: handler_phase warmup_event_def PHASES_def)

section \<open>Partial and unreadable events\<close>

lemma with_defaults_fields:
  "nullish (current_channel (with_defaults d)) 0 = nullish (current_channel d) 0"
  "nullish (repeat_index (with_defaults d)) x = nullish (repeat_index d) (nullish (repeat d) 0)"
  "nullish (percent (with_defaults d)) 0 = nullish (percent d) 0"
  "nullish (overall_percent (with_defaults d)) 0 = nullish (overall_percent d) 0"
  "nullish (phase (with_defaults d)) ''IDLE'' = nullish (phase d) ''IDLE''"
  "nullish (step_index (with_defaults d)) 0 = nullish (step_index d) 0"
  "nullish (enabled_count (with_defaults d)) 0 = nullish (enabled_count d) 0"
  "nullish (repeat_total (with_defaults d)) 0 = nullish (repeat_total d) 0"
  "nullish (total_steps (with_defaults d)) 0 = nullish (total_steps d) 0"
  "nullish (elapsed_seconds (with_defaults d)) 0 = nullish (elapsed_seconds d) 0"
  "nullish (tt_seconds (with_defaults d)) 0 = nullish (tt_seconds d) 0"
  "nullish (next_channel (with_defaults d)) 0 = nullish (next_channel d) 0"
  by (simp_all add: with_defaults_def)

lemma handler_defaults: "SSEHandler (Some d) s = SSEHandler (Some (with_defaults d)) s"
  unfolding SSEHandler_def option.case with_defaults_fields ..

lemma run_circle_zero: "dasharray (updateCycleProgress 0 st en) = Num 0"
  by (simp add: updateCycleProgress_def updateProgressCircle_def Let_def)

text \<open>
  Claim C4, as amended. The handler treats an event exactly as it treats the same event
  with every absent field filled in by its default: 0 for a numeric field and IDLE (not the
  previous phase) for the phase. It does so without taking the \<^verbatim>\<open>catch\<close> branch: the
  console is as before. A payload that cannot be read at all is dropped with a console
  warning, the stored channel and phase (and everything else) unchanged. An event without
  the percent field sets the cycle circle to 0.
\<close>

theorem partial_event_defaults_and_dropped_payload:
  "SSEHandler (Some d) s = SSEHandler (Some (with_defaults d)) s
   \<and> console (SSEHandler (Some d) s) = console s
   \<and> SSEHandler None s = s\<lparr>console := console s @ [''[SSE] parse error:'']\<rparr>
   \<and> currentChannel (SSEHandler None s) = currentChannel s
   \<and> currentPhase (SSEHandler None s) = currentPhase s
   \<and> (percent d = None \<longrightarrow> dasharray (runCircle (SSEHandler (Some d) s)) = Num 0)"
proof -
  have "SSEHandler None s = s\<lparr>console := console s @ [''[SSE] parse error:'']\<rparr>"
    by (simp add: SSEHandler_def)
  moreover have "percent d = None \<longrightarrow> dasharray (runCircle (SSEHandler (Some d) s)) = Num 0"
    by (simp add: handler_circles run_circle_zero)
  ultimately show ?thesis
    using handler_defaults [of d s] by (simp add: handler_console)
qed

theorem partial_event_witness:
  "percent empty_event = None
   \<and> dasharray (runCircle (SSEHandler (Some empty_event) measuring_state)) = Num 0
   \<and> console (SSEHandler (Some empty_event) measuring_state) = console measuring_state
   \<and> currentPhase (SSEHandler None measuring_state) = Some ''MEASURING''
   \<and> currentChannel (SSEHandler None measuring_state) = 0"
proof -
  note t = partial_event_defaults_and_dropped_payload [of empty_event measuring_state]
  have p: "percent empty_event = None"
    by (simp add: empty_event_def)
  from t p have "dasharray (runCircle (SSEHandler (Some empty_event) measuring_state)) = Num 0"
    by blast
  moreover from t
  have "console (SSEHandler (Some empty_event) measuring_state) = console measuring_state"
    by blast
  moreover from t
  have "currentPhase (SSEHandler None measuring_state) = currentPhase measuring_state"
    by blast
  moreover from t
  have "currentChannel (SSEHandler None measuring_state) = currentChannel measuring_state"
    by blast
  ultimately show ?thesis
    using p by (simp add: measuring_state_def handler_phase handler_channel)
qed

text \<open>
  While MEASURING is the stored phase, an event without a phase field stores IDLE: the
  default of the phase field is IDLE, not the previous phase.
\<close>

theorem absent_phase_is_idle_not_previous:
  "currentPhase measuring_state = Some ''MEASURING'' \<and> phase empty_event = None
   \<and> currentPhase (SSEHandler (Some empty_event) measuring_state) = Some ''IDLE''"
  by (simp add: measuring_state_def handler_phase) (simp add: empty_event_def)

section \<open>Scenario A\<close>

text \<open>
  Claim C5, as amended. After the five events of scenario A the one summary call is
  "Measurement Complete" with 2 of 2 steps and the toast shows it; channel 2 is SAMPLED;
  channels 3 and above are as they were; channel 1 is still SAMPLING, because the step from
  MEASURING on channel 0 to MEASURING on channel 1 changes no phase and recolours nothing.
\<close>

theorem scenario_A_outcome:
  "summaryCalls scenario_A = [(''Measurement Complete'', 2, 2, ''success'')]
   \<and> map_option toastMessage (centerToast scenario_A)
       = Some ''<strong>Measurement Complete</strong><br>Completed: 2/2 steps<br>Duration: 00:00''
   \<and> jars scenario_A ! 0 = \<lparr>active = True, sampling = True, sampled = False, paused = False\<rparr>
   \<and> jars scenario_A ! 1 = \<lparr>active = True, sampling = False, sampled = True, paused = False\<rparr>
   \<and> drop 2 (jars scenario_A) = drop 2 (jars scenario_start)
   \<and> drop 2 (jars scenario_A) = replicate 29 new_jar"
  by code_simp

theorem scenario_A_channel_1_not_sampled:
  "\<not> sampled (jars scenario_A ! 0) \<and> sampling (jars scenario_A ! 0)"
  by code_simp

section \<open>Markers on unselected jars\<close>

text \<open>
  What does hold: recolouring never touches an unselected jar, and no event puts a
  marker on one.
\<close>

lemma updateJarColors_unselected:
  "0 \<le> ch \<Longrightarrow> nat ch < length (jars s) \<Longrightarrow> \<not> active (jars s ! nat ch)
     \<Longrightarrow> updateJarColors ch ph s = s"
  by (simp add: updateJarColors_def)

lemma updateJarColors_clean:
  assumes "unselected_clean s"
  shows "unselected_clean (updateJarColors ch ph s)"
proof -
  have "list_all P (xs[i := v])" if "list_all P xs" and "P v" for P and xs :: "jar list" and i v
    using that set_update_subset_insert [of xs i v] by (auto simp add: list_all_iff)
  with assms show ?thesis
    by (simp add: updateJarColors_def unselected_clean_def Let_def)
qed

lemma resetJarStates_clean: "unselected_clean s \<Longrightarrow> unselected_clean (resetJarStates s)"
  by (auto simp add: resetJarStates_def unselected_clean_def list_all_iff)

lemma unselected_clean_cong: "jars t = jars s \<Longrightarrow> unselected_clean t = unselected_clean s"
  by (simp add: unselected_clean_def)

lemma handler_jars:
  "jars (SSEHandler (Some d) s) =
     (let ch = nullish (current_channel d) 0; ph = nullish (phase d) ''IDLE''
      in if currentPhase s \<noteq> Some ph
         then jars (updateJarColors ch ph
                (if currentChannel s \<noteq> ch \<and> ch = 0 then resetJarStates s else s))
         else jars s)"
  by (simp add: SSEHandler_def Let_def onPhaseChanged_def updateJarColors_def resetJarStates_def)

lemma handler_keeps_unselected_clean:
  assumes "unselected_clean s"
  shows "unselected_clean (SSEHandler p s)"
proof (cases p)
  case None
  then show ?thesis using assms by (simp add: SSEHandler_def unselected_clean_def)
next
  case (Some d)
  have "unselected_clean (updateJarColors ch ph (if b then resetJarStates s else s))" for ch ph b
    using assms by (simp add: updateJarColors_clean resetJarStates_clean)
  then show ?thesis
    using assms Some by (simp add: unselected_clean_def handler_jars Let_def)
qed

text \<open>
  Claim C6. An unselected channel should never carry SAMPLING or PAUSED. The two runs
  end otherwise: pressing "None" while channel 1 is being sampled leaves jar 1 unselected
  and \<^verbatim>\<open>sampling\<close>, and clicking jar 3 after an aborted pause leaves it unselected and
  \<^verbatim>\<open>paused\<close>.
\<close>

theorem unselected_jar_keeps_marker:
  "\<not> active (jars deselected_while_sampling ! 0) \<and> sampling (jars deselected_while_sampling ! 0)
   \<and> \<not> active (jars toggled_after_pause ! 2) \<and> paused (jars toggled_after_pause ! 2)
   \<and> \<not> unselected_clean deselected_while_sampling \<and> \<not> unselected_clean toggled_after_pause"
  by code_simp

section \<open>Progress circles: percent and range\<close>

lemma repeat_percent:
  "0 < t \<Longrightarrow> dasharray (updateRepeatInfo v t) = Num (max 0 (min 100 (of_int v * 100 / of_int t)))"
  by (simp add: updateRepeatInfo_def updateProgressCircle_def js_div_def Let_def)

lemma repeat_zero_total:
  "dasharray (updateRepeatInfo v 0) = (if 0 < v then Num 100 else Num 0)"
  by (simp add: updateRepeatInfo_def updateProgressCircle_def js_div_def Let_def)

lemma bucket_of_percent:
  "dataPct (updateProgressCircle (Num p) l) =
     (let q = max 0 (min 100 p)
      in if q \<le> 25 then ''0-25'' else if q \<le> 50 then ''26-50''
         else if q \<le> 75 then ''51-75'' else ''76-100'')"
  by (auto simp add: updateProgressCircle_def Let_def min_def max_def)

text \<open>
  Claim C8. With total 0 the percent should be 0. For the repeat circle it is 100 as soon
  as the value is positive: \<^verbatim>\<open>1 / 0\<close> is Infinity, which \<^verbatim>\<open>percent || 0\<close> lets through and
  the clamp turns into 100. An event with repeat index 1 and no repeat total gets there.
\<close>

theorem repeat_circle_full_on_zero_total:
  "dasharray (updateRepeatInfo 1 0) = Num 100 \<and> dataPct (updateRepeatInfo 1 0) = ''76-100''
   \<and> repeat_total repeat_only_event = None
   \<and> dasharray (repeatCircle (SSEHandler (Some repeat_only_event) page_ready)) = Num 100"
  by (simp add: handler_circles updateRepeatInfo_def updateProgressCircle_def js_div_def
        repeat_only_event_def empty_event_def)

section \<open>Decimal rendering and parsing\<close>

lemma digit_char_props:
  assumes "d < 10"
  shows "is_digit (digit_char d)" and "digit_val (digit_char d) = d"
proof -
  have c: "(of_char (digit_char d) :: nat) = 48 + d"
    using assms by (simp add: digit_char_def)
  show "is_digit (digit_char d)" using assms by (simp add: is_digit_def c)
  show "digit_val (digit_char d) = d" by (simp add: digit_val_def c)
qed

lemma digit_not_other:
  assumes "is_digit c"
  shows "\<not> is_space c" and "c \<noteq> CHR ''-''" and "c \<noteq> CHR ''+''" and "c \<noteq> CHR '':''"
  using assms by (auto simp add: is_digit_def is_space_def)

lemma show_nat_digits: "\<forall>c \<in> set (show_nat n). is_digit c"
proof (induction n rule: show_nat.induct)
  case (1 n)
  show ?case
  proof (cases "n < 10")
    case True
    then show ?thesis by (subst show_nat.simps) (simp add: digit_char_props)
  next
    case False
    with 1 show ?thesis by (subst show_nat.simps) (simp add: digit_char_props)
  qed
qed

lemma show_nat_nonempty: "show_nat n \<noteq> []"
  by (subst show_nat.simps) simp

lemma show_nat_hd: "is_digit (hd (show_nat n))"
  using show_nat_digits [of n] show_nat_nonempty [of n] by (cases "show_nat n") auto

lemma digits_val_snoc: "digits_val (ds @ [c]) = digits_val ds * 10 + digit_val c"
  by (simp add: digits_val_def)

lemma digits_val_show_nat: "digits_val (show_nat n) = n"
proof (induction n rule: show_nat.induct)
  case (1 n)
  show ?case
  proof (cases "n < 10")
    case True
    then show ?thesis
      by (subst show_nat.simps) (simp add: digits_val_def digit_char_props)
  next
    case False
    with 1 have "digits_val (show_nat (n div 10)) = n div 10" by simp
    with False show ?thesis
      by (subst show_nat.simps) (simp add: digits_val_snoc digit_char_props)
  qed
qed

lemma parseInt10_show_nat: "parseInt10 (show_nat n) = Some (int n)"
proof -
  have sp: "dropWhile is_space (show_nat n) = show_nat n"
    using show_nat_hd [of n] show_nat_nonempty [of n]
    by (cases "show_nat n") (auto dest: digit_not_other)
  have sg: "hd (show_nat n) \<noteq> CHR ''-''" "hd (show_nat n) \<noteq> CHR ''+''"
    using show_nat_hd [of n] by (auto dest: digit_not_other)
  have tk: "takeWhile is_digit (show_nat n) = show_nat n"
    using show_nat_digits [of n] by (simp add: takeWhile_eq_all_conv)
  show ?thesis
    by (simp add: parseInt10_def sp sg tk show_nat_nonempty digits_val_show_nat Let_def)
qed

lemma parseInt10_show_int: "parseInt10 (show_int i) = Some i"
proof (cases "i < 0")
  case False
  then show ?thesis by (simp add: show_int_def parseInt10_show_nat)
next
  case True
  have sg: "hd (show_nat (nat (- i))) \<noteq> CHR ''-''" "hd (show_nat (nat (- i))) \<noteq> CHR ''+''"
    using show_nat_hd [of "nat (- i)"] by (auto dest: digit_not_other)
  have tk: "takeWhile is_digit (show_nat (nat (- i))) = show_nat (nat (- i))"
    using show_nat_digits [of "nat (- i)"] by (simp add: takeWhile_eq_all_conv)
  have "\<not> is_space CHR ''-''" by (simp add: is_space_def)
  with True show ?thesis
    by (simp add: show_int_def parseInt10_def tk show_nat_nonempty digits_val_show_nat Let_def)
qed

lemma show_int_inj: "show_int a = show_int b \<Longrightarrow> a = b"
  by (metis parseInt10_show_int option.inject)

lemma show_int_no_colon: "CHR '':'' \<notin> set (show_int i)"
  using show_nat_digits [of "nat i"] show_nat_digits [of "nat (- i)"]
  by (auto simp add: show_int_def dest: digit_not_other)

lemma takeWhile_upto: "x \<notin> set xs \<Longrightarrow> takeWhile (\<lambda>c. c \<noteq> x) (xs @ x # ys) = xs"
  by (induction xs) auto

lemma key_run_inj:
  assumes "show_int a @ CHR '':'' # r = show_int b @ CHR '':'' # r'"
  shows "a = b"
proof -
  have "takeWhile (\<lambda>c. c \<noteq> CHR '':'') (show_int a @ CHR '':'' # r) = show_int a"
    by (rule takeWhile_upto) (rule show_int_no_colon)
  moreover have "takeWhile (\<lambda>c. c \<noteq> CHR '':'') (show_int b @ CHR '':'' # r') = show_int b"
    by (rule takeWhile_upto) (rule show_int_no_colon)
  ultimately have "show_int a = show_int b" using assms by simp
  then show ?thesis by (rule show_int_inj)
qed

lemma dismissKey_run: "dismissKey (show_int a) ty m = dismissKey (show_int b) ty' m' \<Longrightarrow> a = b"
  by (rule key_run_inj [of a _ b]) (simp add: dismissKey_def)


section \<open>Start countdown and run counter\<close>

lemma page_ready_more [simp]:
  "countdownTimer page_ready = False"
  "timerLive page_ready = False"
  "jars page_ready = replicate TOTAL_JARS new_jar"
  by (simp_all add: page_ready_def scripts_loaded_def applyPhase_def Let_def)



lemma storedCycle_start:
  "storedCycle (startMeasurement r s) =
     (case parseInt10 (storedCycle s) of None \<Rightarrow> ''NaN'' | Some n \<Rightarrow> show_int (n + 1))"
proof -
  have "show_int i \<noteq> []" for i
    by (simp add: show_int_def show_nat_nonempty)
  then show ?thesis
    by (simp add: startMeasurement_def storedCycle_def Let_def split: option.split)
qed

lemma start_increments:
  assumes "parseInt10 (storedCycle s) = Some n"
  shows "parseInt10 (storedCycle (startMeasurement r s)) = Some (n + 1)"
  using assms by (simp add: storedCycle_start parseInt10_show_int)

lemma start_requests: "startRequests (startMeasurement r s) = startRequests s @ [getJarMask s]"
  by (simp add: startMeasurement_def Let_def)

lemma tick_cases:
  "countdownTick r s =
     (if timerLive s \<and> \<not> isMeasurementRunning s \<and> countdown s \<le> 1
      then startMeasurement r (s\<lparr>countdown := countdown s - 1,
             btnStart := (btnStart s)\<lparr>btnText := ''Starting'' @ ellipsis\<rparr>,
             timerLive := False, countdownTimer := False\<rparr>)
      else if timerLive s \<and> \<not> isMeasurementRunning s
      then s\<lparr>countdown := countdown s - 1,
             btnStart := (btnStart s)\<lparr>btnText := ''Starting in '' @ show_int (countdown s - 1) @ ellipsis @ '' (Cancel)''\<rparr>\<rparr>
      else if timerLive s then s\<lparr>timerLive := False\<rparr> else s)"
  by (simp add: countdownTick_def Let_def)

lemma tick_sends:
  assumes "timerLive s" "\<not> isMeasurementRunning s" "countdown s \<le> 1"
  shows "startRequests (countdownTick r s) = startRequests s @ [getJarMask s]"
    and "storedCycle (countdownTick r s) =
           (case parseInt10 (storedCycle s) of None \<Rightarrow> ''NaN'' | Some n \<Rightarrow> show_int (n + 1))"
    and "\<not> timerLive (countdownTick r s)" and "\<not> countdownTimer (countdownTick r s)"
proof -
  let ?s' = "s\<lparr>countdown := countdown s - 1,
             btnStart := (btnStart s)\<lparr>btnText := ''Starting'' @ ellipsis\<rparr>,
             timerLive := False, countdownTimer := False\<rparr>"
  have t: "countdownTick r s = startMeasurement r ?s'"
    using assms by (simp add: tick_cases)
  have c: "storedCycle ?s' = storedCycle s"
    by (simp add: storedCycle_def)
  show "startRequests (countdownTick r s) = startRequests s @ [getJarMask s]"
    unfolding t by (simp add: start_requests getJarMask_def)
  show "storedCycle (countdownTick r s) =
           (case parseInt10 (storedCycle s) of None \<Rightarrow> ''NaN'' | Some n \<Rightarrow> show_int (n + 1))"
    unfolding t storedCycle_start c ..
  show "\<not> timerLive (countdownTick r s)" unfolding t by simp
  show "\<not> countdownTimer (countdownTick r s)" unfolding t by simp
qed

lemma tick_counts:
  assumes "timerLive s" "\<not> isMeasurementRunning s" "1 < countdown s"
  shows "startRequests (countdownTick r s) = startRequests s"
    and "measurementCycle (countdownTick r s) = measurementCycle s"
    and "timerLive (countdownTick r s)" and "countdownTimer (countdownTick r s) = countdownTimer s"
    and "countdown (countdownTick r s) = countdown s - 1"
  using assms by (simp_all add: tick_cases)

lemma tick_idle:
  assumes "\<not> (timerLive s \<and> \<not> isMeasurementRunning s)"
  shows "startRequests (countdownTick r s) = startRequests s"
    and "measurementCycle (countdownTick r s) = measurementCycle s"
    and "\<not> timerLive (countdownTick r s)"
  using assms by (auto simp add: tick_cases)

lemma tick_dead: "\<not> timerLive s \<Longrightarrow> countdownTick r s = s"
  by (simp add: tick_cases)

lemma ticks_dead: "\<not> timerLive s \<Longrightarrow> ticks n r s = s"
  by (induction n) (simp_all add: tick_dead)

lemma ticks_counting:
  assumes "timerLive s" "\<not> isMeasurementRunning s" "int n < countdown s"
  shows "timerLive (ticks n r s) \<and> countdownTimer (ticks n r s) = countdownTimer s
         \<and> \<not> isMeasurementRunning (ticks n r s) \<and> countdown (ticks n r s) = countdown s - int n
         \<and> startRequests (ticks n r s) = startRequests s \<and> jars (ticks n r s) = jars s
         \<and> measurementCycle (ticks n r s) = measurementCycle s"
  using assms
proof (induction n arbitrary: s)
  case 0
  then show ?case by simp
next
  case (Suc n)
  let ?t = "countdownTick r s"
  from Suc.prems have c: "1 < countdown s" by simp
  have t: "timerLive ?t" "\<not> isMeasurementRunning ?t" "int n < countdown ?t"
    using Suc.prems c by (simp_all add: tick_counts)
  from Suc.IH [OF t] show ?case
    using Suc.prems c by (simp add: tick_counts)
qed

lemma ticks_expired:
  assumes "timerLive s" "\<not> isMeasurementRunning s" "0 < countdown s" "countdown s \<le> int n"
  shows "startRequests (ticks n r s) = startRequests s @ [getJarMask s]
         \<and> \<not> timerLive (ticks n r s) \<and> \<not> countdownTimer (ticks n r s)"
  using assms
proof (induction n arbitrary: s)
  case 0
  then show ?case by simp
next
  case (Suc n)
  let ?t = "countdownTick r s"
  show ?case
  proof (cases "countdown s \<le> 1")
    case True
    with Suc.prems have "\<not> timerLive ?t" "\<not> countdownTimer ?t"
      "startRequests ?t = startRequests s @ [getJarMask s]"
      by (simp_all add: tick_sends)
    then show ?thesis by (simp add: ticks_dead)
  next
    case False
    then have c: "1 < countdown s" by simp
    have t: "timerLive ?t" "\<not> isMeasurementRunning ?t" "0 < countdown ?t" "countdown ?t \<le> int n"
      using Suc.prems c by (simp_all add: tick_counts)
    from Suc.IH [OF t] show ?thesis
      using Suc.prems c by (simp add: tick_counts getJarMask_def)
  qed
qed

lemma click_starts:
  assumes "\<not> countdownTimer s" "\<not> isMeasurementRunning s"
  shows "timerLive (btnStartClick s)" "countdownTimer (btnStartClick s)"
        "countdown (btnStartClick s) = START_DELAY"
  using assms by (simp_all add: btnStartClick_def Let_def)

lemma click_cancels:
  assumes "countdownTimer s" "\<not> isMeasurementRunning s"
  shows "\<not> timerLive (btnStartClick s)" "\<not> countdownTimer (btnStartClick s)"
        "countdown (btnStartClick s) = START_DELAY"
        "btnText (btnStart (btnStartClick s)) = ''Start Measurement''"
  using assms by (simp_all add: btnStartClick_def Let_def)

text \<open>
  Claim C9. From an idle controller (no countdown pending, no run active), a start click
  followed by fewer than five ticks and a second click cancels: no start request has been
  sent, the timer is cleared, the countdown is back at its start value, the button reads
  "Start Measurement", and no later tick sends anything. A start click followed by five
  ticks, or by any larger number of tick attempts, has sent exactly one start request, and the timer is cleared.
\<close>

theorem countdown_cancel_or_single_start:
  assumes "\<not> countdownTimer s" and "\<not> isMeasurementRunning s"
  shows "(n < 5 \<longrightarrow>
            startRequests (btnStartClick (ticks n r (btnStartClick s))) = startRequests s
          \<and> \<not> countdownTimer (btnStartClick (ticks n r (btnStartClick s)))
          \<and> \<not> timerLive (btnStartClick (ticks n r (btnStartClick s)))
          \<and> countdown (btnStartClick (ticks n r (btnStartClick s))) = START_DELAY
          \<and> btnText (btnStart (btnStartClick (ticks n r (btnStartClick s)))) = ''Start Measurement''
          \<and> startRequests (ticks m r (btnStartClick (ticks n r (btnStartClick s)))) = startRequests s)
       \<and> (5 \<le> n \<longrightarrow>
            startRequests (ticks n r (btnStartClick s)) = startRequests s @ [getJarMask s]
          \<and> \<not> countdownTimer (ticks n r (btnStartClick s))
          \<and> \<not> timerLive (ticks n r (btnStartClick s)))"
proof -
  let ?c = "btnStartClick s"
  have c: "timerLive ?c" "countdownTimer ?c" "countdown ?c = 5" "\<not> isMeasurementRunning ?c"
    using assms by (simp_all add: click_starts START_DELAY_def)
  have "startRequests ?c = startRequests s" "jars ?c = jars s" by simp_all
  {
    assume n: "n < 5"
    let ?u = "ticks n r ?c"
    from n c have u: "timerLive ?u \<and> countdownTimer ?u = countdownTimer ?c
         \<and> \<not> isMeasurementRunning ?u \<and> countdown ?u = countdown ?c - int n
         \<and> startRequests ?u = startRequests ?c \<and> jars ?u = jars ?c
         \<and> measurementCycle ?u = measurementCycle ?c"
      by (intro ticks_counting) simp_all
    then have k: "countdownTimer ?u" "\<not> isMeasurementRunning ?u" using c by simp_all
    have "\<not> timerLive (btnStartClick ?u)" using k by (rule click_cancels)
    then have "ticks m r (btnStartClick ?u) = btnStartClick ?u" by (rule ticks_dead)
    with u k have "startRequests (btnStartClick ?u) = startRequests s
          \<and> \<not> countdownTimer (btnStartClick ?u)
          \<and> \<not> timerLive (btnStartClick ?u)
          \<and> countdown (btnStartClick ?u) = START_DELAY
          \<and> btnText (btnStart (btnStartClick ?u)) = ''Start Measurement''
          \<and> startRequests (ticks m r (btnStartClick ?u)) = startRequests s"
      by (simp add: click_cancels)
  }
  moreover
  {
    assume n: "5 \<le> n"
    with c have "startRequests (ticks n r ?c) = startRequests ?c @ [getJarMask ?c]
         \<and> \<not> timerLive (ticks n r ?c) \<and> \<not> countdownTimer (ticks n r ?c)"
      by (intro ticks_expired) simp_all
    then have "startRequests (ticks n r ?c) = startRequests s @ [getJarMask s]
          \<and> \<not> countdownTimer (ticks n r ?c) \<and> \<not> timerLive (ticks n r ?c)"
      by (simp add: getJarMask_def)
  }
  ultimately show ?thesis by blast
qed


theorem countdown_cancel_or_single_start_witness:
  "\<not> countdownTimer page_ready \<and> \<not> isMeasurementRunning page_ready
   \<and> startRequests (btnStartClick (ticks 3 RespOk (btnStartClick page_ready))) = []
   \<and> \<not> timerLive (btnStartClick (ticks 3 RespOk (btnStartClick page_ready)))
   \<and> startRequests (ticks 5 RespOk (btnStartClick page_ready)) = [replicate 31 False]
   \<and> startRequests (ticks 9 RespOk (btnStartClick page_ready)) = [replicate 31 False]"
proof -
  have h1: "\<not> countdownTimer page_ready" and h2: "\<not> isMeasurementRunning page_ready"
    by simp_all
  have m: "getJarMask page_ready = replicate 31 False"
    by (simp add: getJarMask_def TOTAL_JARS_def new_jar_def)
  have a: "(3::nat) < 5" and b: "(5::nat) \<le> 5" and c: "(5::nat) \<le> 9" by simp_all
  note t3 = countdown_cancel_or_single_start [OF h1 h2, of 3 RespOk 0, THEN conjunct1, THEN mp, OF a]
  note t5 = countdown_cancel_or_single_start [OF h1 h2, of 5 RespOk 0, THEN conjunct2, THEN mp, OF b]
  note t9 = countdown_cancel_or_single_start [OF h1 h2, of 9 RespOk 0, THEN conjunct2, THEN mp, OF c]
  have e: "startRequests page_ready = []" by simp
  show ?thesis
    apply (intro conjI)
         apply (rule h1)
        apply (rule h2)
       apply (simp only: t3 [THEN conjunct1] e)
      apply (rule t3 [THEN conjunct2, THEN conjunct2, THEN conjunct1])
     apply (simp only: t5 [THEN conjunct1] e m append_Nil)
    apply (simp only: t9 [THEN conjunct1] e m append_Nil)
    done
qed


text \<open>
  Claim C10, as amended. Whenever the stored cycle reads as the number \<open>n\<close>, sending a
  start request stores \<open>n + 1\<close>, whatever the backend answers; a tick of the countdown either
  sends one request and stores \<open>n + 1\<close> or sends none and leaves the cycle alone; and no other
  handler writes the cycle. So the counter never decreases and grows by one per request sent.
\<close>

theorem run_counter_bumped_per_start_request:
  assumes "parseInt10 (storedCycle s) = Some n"
  shows "parseInt10 (storedCycle (startMeasurement r s)) = Some (n + 1)
       \<and> startRequests (startMeasurement r s) = startRequests s @ [getJarMask s]
       \<and> (startRequests (countdownTick r s) = startRequests s @ [getJarMask s]
            \<and> parseInt10 (storedCycle (countdownTick r s)) = Some (n + 1)
          \<or> startRequests (countdownTick r s) = startRequests s
            \<and> measurementCycle (countdownTick r s) = measurementCycle s)
       \<and> measurementCycle (SSEHandler p s) = measurementCycle s
       \<and> measurementCycle (btnStartClick s) = measurementCycle s
       \<and> measurementCycle (showAlert m ty s) = measurementCycle s
       \<and> measurementCycle (toastClick s) = measurementCycle s
       \<and> measurementCycle (jarClick i s) = measurementCycle s
       \<and> measurementCycle (setAllJars b s) = measurementCycle s
       \<and> measurementCycle (invertJars s) = measurementCycle s
       \<and> measurementCycle (applyJarMask k s) = measurementCycle s"
proof -
  have "startRequests (countdownTick r s) = startRequests s @ [getJarMask s]
            \<and> parseInt10 (storedCycle (countdownTick r s)) = Some (n + 1)
          \<or> startRequests (countdownTick r s) = startRequests s
            \<and> measurementCycle (countdownTick r s) = measurementCycle s"
  proof (cases "timerLive s \<and> \<not> isMeasurementRunning s")
    case False
    then show ?thesis by (simp add: tick_idle)
  next
    case True
    show ?thesis
    proof (cases "countdown s \<le> 1")
      case True
      with \<open>timerLive s \<and> \<not> isMeasurementRunning s\<close> assms show ?thesis
        by (simp add: tick_sends parseInt10_show_int)
    next
      case False
      with \<open>timerLive s \<and> \<not> isMeasurementRunning s\<close> show ?thesis
        by (simp add: tick_counts)
    qed
  qed
  then show ?thesis
    using assms by (simp add: start_increments start_requests)
qed


theorem run_counter_witness:
  "parseInt10 (storedCycle page_ready) = Some 0
   \<and> parseInt10 (storedCycle (startMeasurement RespOk page_ready)) = Some 1
   \<and> measurementCycle (SSEHandler (Some aborted_event) page_ready) = measurementCycle page_ready"
proof -
  have h: "parseInt10 (storedCycle page_ready) = Some 0"
    by code_simp
  from run_counter_bumped_per_start_request [OF h, of RespOk "Some aborted_event"] h
  show ?thesis by simp
qed

text \<open>
  A start request that fails (the promise is rejected and the failure logged) has
  moved the counter from 0 to 1 all the same.
\<close>

theorem failed_start_bumps_run_counter:
  "parseInt10 (storedCycle page_ready) = Some 0
   \<and> parseInt10 (storedCycle (startMeasurement RespFailed page_ready)) = Some 1
   \<and> console (startMeasurement RespFailed page_ready) = [''[MEAS] Start failed:'']"
  by code_simp

section \<open>Alert deduplication\<close>

lemma start_cycle:
  assumes "storedCycle s = show_int n"
  shows "storedCycle (startMeasurement r s) = show_int (n + 1)"
  using assms by (simp add: storedCycle_start parseInt10_show_int)

lemma dismissKey_next: "dismissKey (show_int (n + 1)) ty m \<noteq> dismissKey (show_int n) ty' m'"
  using dismissKey_run [of "n + 1" ty m n ty' m'] by auto

lemma dismissKey_text: "dismissKey c ty m = c @ '':'' @ ty @ '':'' @ m"
  by (simp add: dismissKey_def)

lemma showAlert_acknowledged: "acknowledged s ty m \<Longrightarrow> showAlert m ty s = s"
  by (simp add: showAlert_def acknowledged_def Let_def nullish_def)

lemma showAlert_presented:
  "\<not> acknowledged s ty m \<Longrightarrow> centerToast (showAlert m ty s) =
     Some \<lparr>toastMessage = m, toastType = ty, toastKey = dismissKey (storedCycle s) ty m,
           toastDismissed = nullish (dismissedAlerts s) Map.empty\<rparr>"
  by (simp add: showAlert_toast acknowledged_def)

lemma dismissed_after_click:
  assumes "\<not> acknowledged s ty m"
  shows "dismissedAlerts (toastClick (showAlert m ty s)) =
           Some ((nullish (dismissedAlerts s) Map.empty)(dismissKey (storedCycle s) ty m \<mapsto> True))"
  using assms by (simp add: toastClick_def showAlert_presented)

lemma storedCycle_click_show [simp]:
  "storedCycle (toastClick s) = storedCycle s"
  "storedCycle (showAlert m ty s) = storedCycle s"
  by (simp_all add: storedCycle_def)

text \<open>
  The three parts of the deduplication for a store whose cycle is the rendering of \<open>n\<close>
  and in which no alert of run \<open>n + 1\<close> is acknowledged yet.
\<close>

lemma alert_dedup_core:
  assumes cyc: "storedCycle s = show_int n"
      and fresh: "nullish (dismissedAlerts s) Map.empty (dismissKey (show_int (n + 1)) ty m) \<noteq> Some True"
  shows "dismissKey (storedCycle s) ty m = storedCycle s @ '':'' @ ty @ '':'' @ m
       \<and> (acknowledged s ty m \<longrightarrow> showAlert m ty s = s)
       \<and> (\<not> acknowledged s ty m \<longrightarrow>
            centerToast (showAlert m ty s) =
              Some \<lparr>toastMessage = m, toastType = ty,
                    toastKey = storedCycle s @ '':'' @ ty @ '':'' @ m,
                    toastDismissed = nullish (dismissedAlerts s) Map.empty\<rparr>
          \<and> acknowledged (toastClick (showAlert m ty s)) ty m
          \<and> showAlert m ty (toastClick (showAlert m ty s)) = toastClick (showAlert m ty s)
          \<and> \<not> acknowledged (startMeasurement r (toastClick (showAlert m ty s))) ty m
          \<and> map_option toastMessage
               (centerToast (showAlert m ty (startMeasurement r (toastClick (showAlert m ty s)))))
             = Some m)
       \<and> \<not> acknowledged (startMeasurement r s) ty m
       \<and> map_option toastKey (centerToast (showAlert m ty (startMeasurement r s)))
           = Some (show_int (n + 1) @ '':'' @ ty @ '':'' @ m)"
proof -
  let ?s2 = "toastClick (showAlert m ty s)"
  have next_fresh: "\<not> acknowledged (startMeasurement r s) ty m"
    using fresh by (simp add: acknowledged_def start_cycle [OF cyc])
  {
    assume na: "\<not> acknowledged s ty m"
    have a2: "acknowledged ?s2 ty m"
      by (simp add: acknowledged_def dismissed_after_click [OF na])
    have c2: "storedCycle ?s2 = show_int n"
      using cyc by simp
    have "\<not> acknowledged (startMeasurement r ?s2) ty m"
      using fresh
      by (simp add: acknowledged_def start_cycle [OF c2] dismissed_after_click [OF na] cyc
            dismissKey_next)
    then have "acknowledged ?s2 ty m \<and> showAlert m ty ?s2 = ?s2
        \<and> \<not> acknowledged (startMeasurement r ?s2) ty m
        \<and> map_option toastMessage (centerToast (showAlert m ty (startMeasurement r ?s2))) = Some m"
      using a2 by (simp add: showAlert_acknowledged showAlert_presented)
  }
  then show ?thesis
    using next_fresh
    by (simp add: dismissKey_text showAlert_acknowledged showAlert_presented start_cycle [OF cyc])
qed


text \<open>Every reachable state satisfies the invariant of the store for some \<open>n\<close>.\<close>

lemma run_upto_mono:
  assumes "run_upto n k" and "n \<le> n'"
  shows "run_upto n' k"
proof -
  from assms(1) obtain i r where "i \<le> n" and k: "k = show_int i @ CHR '':'' # r"
    by (auto simp add: run_upto_def)
  with assms(2) have "i \<le> n'" by simp
  with k show ?thesis by (auto simp add: run_upto_def)
qed

lemma run_upto_key: "run_upto n (dismissKey (show_int n) ty m)"
  unfolding run_upto_def dismissKey_def by (rule exI [of _ n]) simp

lemma run_upto_next: "\<not> run_upto n (dismissKey (show_int (n + 1)) ty m)"
proof
  assume "run_upto n (dismissKey (show_int (n + 1)) ty m)"
  then obtain i r where i: "i \<le> n"
    and eq: "show_int (n + 1) @ CHR '':'' # (ty @ '':'' @ m) = show_int i @ CHR '':'' # r"
    by (auto simp add: run_upto_def dismissKey_def)
  from eq have "n + 1 = i" by (rule key_run_inj)
  with i show False by simp
qed

lemma store_inv_cong:
  assumes "store_inv n s" and "measurementCycle t = measurementCycle s"
    and "dismissedAlerts t = dismissedAlerts s" and "centerToast t = centerToast s"
  shows "store_inv n t"
  using assms by (simp add: store_inv_def storedCycle_def)

lemma store_inv_mono:
  assumes "store_inv n s" and "storedCycle t = show_int (n + 1)"
    and "dismissedAlerts t = dismissedAlerts s" and "centerToast t = centerToast s"
  shows "store_inv (n + 1) t"
  using assms run_upto_mono [of n _ "n + 1"] by (simp add: store_inv_def)

lemma store_inv_showAlert:
  assumes "store_inv n s"
  shows "store_inv n (showAlert m ty s)"
proof (cases "acknowledged s ty m")
  case True
  then show ?thesis using assms by (simp add: showAlert_acknowledged)
next
  case False
  then show ?thesis
    using assms run_upto_key [of n ty m]
    by (simp add: store_inv_def showAlert_presented)
qed

lemma store_inv_toastClick:
  assumes "store_inv n s"
  shows "store_inv n (toastClick s)"
  using assms by (auto simp add: store_inv_def toastClick_def storedCycle_def split: option.split)

lemma handler_toast_eq:
  "centerToast (SSEHandler (Some d) s) =
     (if currentPhase s = Some (nullish (phase d) ''IDLE'') then centerToast s
      else if nullish (phase d) ''IDLE'' = ''ABORTED''
      then centerToast (showAlert (summaryHtml ''Measurement Aborted'' (nullish (step_index d) 0)
              (nullish (total_steps d) 0) (measurementTiming s)) ''danger'' s)
      else if currentPhase s = Some ''SWITCHING'' \<and> nullish (phase d) ''IDLE'' = ''IDLE''
      then centerToast (showAlert (summaryHtml ''Measurement Complete'' (nullish (total_steps d) 0)
              (nullish (total_steps d) 0) (measurementTiming s)) ''success'' s)
      else centerToast s)"
  by (simp add: SSEHandler_def Let_def onPhaseChanged_toast showAlert_toast storedCycle_def)

lemma handler_toast:
  "centerToast (SSEHandler p s) = centerToast s
   \<or> (\<exists>m ty. centerToast (SSEHandler p s) = centerToast (showAlert m ty s))"
proof (cases p)
  case None
  then show ?thesis by (simp add: SSEHandler_def)
next
  case (Some d)
  show ?thesis unfolding Some handler_toast_eq by auto
qed

lemma store_inv_handler:
  assumes "store_inv n s"
  shows "store_inv n (SSEHandler p s)"
proof -
  from handler_toast [of p s] show ?thesis
  proof
    assume c: "centerToast (SSEHandler p s) = centerToast s"
    show ?thesis
      by (rule store_inv_cong [OF assms]) (simp_all add: c)
  next
    assume "\<exists>m ty. centerToast (SSEHandler p s) = centerToast (showAlert m ty s)"
    then obtain m ty where c: "centerToast (SSEHandler p s) = centerToast (showAlert m ty s)"
      by blast
    show ?thesis
      by (rule store_inv_cong [OF store_inv_showAlert [OF assms, of m ty]]) (simp_all add: c)
  qed
qed

lemma store_inv_tick:
  assumes "store_inv n s"
  shows "store_inv n (countdownTick r s) \<or> store_inv (n + 1) (countdownTick r s)"
proof (cases "timerLive s \<and> \<not> isMeasurementRunning s \<and> countdown s \<le> 1")
  case True
  from assms have "storedCycle s = show_int n" by (simp add: store_inv_def)
  with True have "storedCycle (countdownTick r s) = show_int (n + 1)"
    by (simp add: tick_sends parseInt10_show_int)
  with assms have "store_inv (n + 1) (countdownTick r s)"
    by (rule store_inv_mono [of n s]) simp_all
  then show ?thesis ..
next
  case False
  then have "measurementCycle (countdownTick r s) = measurementCycle s"
    by (auto simp add: tick_cases)
  with assms have "store_inv n (countdownTick r s)"
    by (rule store_inv_cong [of n s]) simp_all
  then show ?thesis ..
qed

lemma store_inv_page_ready: "store_inv 0 page_ready"
proof -
  have "storedCycle page_ready = show_int 0" by code_simp
  then show ?thesis by (simp add: store_inv_def)
qed

lemma reachable_store_inv: "reachable s \<Longrightarrow> \<exists>n. store_inv n s"
proof (induction rule: reachable.induct)
  case loaded
  show ?case using store_inv_page_ready ..
next
  case (reloaded s)
  from reloaded.IH obtain n where "store_inv n s" ..
  then have "store_inv n (page_ready\<lparr>measurementCycle := measurementCycle s,
                            dismissedAlerts := dismissedAlerts s\<rparr>)"
    by (simp add: store_inv_def storedCycle_def)
  then show ?case ..
next
  case (event s p)
  from event.IH obtain n where "store_inv n s" ..
  then have "store_inv n (SSEHandler p s)" by (rule store_inv_handler)
  then show ?case ..
next
  case (start_click s)
  from start_click.IH obtain n where "store_inv n s" ..
  then have "store_inv n (btnStartClick s)" by (rule store_inv_cong) simp_all
  then show ?case ..
next
  case (tick s r)
  from tick.IH obtain n where "store_inv n s" ..
  from store_inv_tick [OF this, of r] show ?case by blast
next
  case (jar_click s i)
  from jar_click.IH obtain n where "store_inv n s" ..
  then have "store_inv n (jarClick i s)" by (rule store_inv_cong) simp_all
  then show ?case ..
next
  case (select_all s b)
  from select_all.IH obtain n where "store_inv n s" ..
  then have "store_inv n (setAllJars b s)" by (rule store_inv_cong) simp_all
  then show ?case ..
next
  case (invert s)
  from invert.IH obtain n where "store_inv n s" ..
  then have "store_inv n (invertJars s)" by (rule store_inv_cong) simp_all
  then show ?case ..
next
  case (apply_mask s k)
  from apply_mask.IH obtain n where "store_inv n s" ..
  then have "store_inv n (applyJarMask k s)" by (rule store_inv_cong) simp_all
  then show ?case ..
next
  case (alert s m ty)
  from alert.IH obtain n where "store_inv n s" ..
  then have "store_inv n (showAlert m ty s)" by (rule store_inv_showAlert)
  then show ?case ..
next
  case (toast_click s)
  from toast_click.IH obtain n where "store_inv n s" ..
  then have "store_inv n (toastClick s)" by (rule store_inv_toastClick)
  then show ?case ..
next
  case (time_passes s t)
  from time_passes.IH obtain n where "store_inv n s" ..
  then have "store_inv n (s\<lparr>measurementTiming := t\<rparr>)" by (rule store_inv_cong) simp_all
  then show ?case ..
qed

lemma reachable_cycle_is_number: "reachable s \<Longrightarrow> \<exists>n. parseInt10 (storedCycle s) = Some n"
  using reachable_store_inv [of s] by (auto simp add: store_inv_def parseInt10_show_int)

text \<open>
  Claim C7. In every state the page can reach: the key of an alert is the stored cycle, a
  colon, the type, a colon and the message. An alert whose key is acknowledged changes
  nothing; any other alert is put on screen. Once its toast is clicked, the same alert is
  suppressed for the rest of the run; after the next start request, which moves the cycle
  on by one, the same type and message are on screen again, under the key of the new run.
\<close>

theorem alert_dedup_by_run_key:
  assumes "reachable s"
  shows "dismissKey (storedCycle s) ty m = storedCycle s @ '':'' @ ty @ '':'' @ m
       \<and> (acknowledged s ty m \<longrightarrow> showAlert m ty s = s)
       \<and> (\<not> acknowledged s ty m \<longrightarrow>
            centerToast (showAlert m ty s) =
              Some \<lparr>toastMessage = m, toastType = ty,
                    toastKey = storedCycle s @ '':'' @ ty @ '':'' @ m,
                    toastDismissed = nullish (dismissedAlerts s) Map.empty\<rparr>
          \<and> acknowledged (toastClick (showAlert m ty s)) ty m
          \<and> showAlert m ty (toastClick (showAlert m ty s)) = toastClick (showAlert m ty s)
          \<and> \<not> acknowledged (startMeasurement r (toastClick (showAlert m ty s))) ty m
          \<and> map_option toastMessage
               (centerToast (showAlert m ty (startMeasurement r (toastClick (showAlert m ty s)))))
             = Some m)
       \<and> \<not> acknowledged (startMeasurement r s) ty m
       \<and> map_option toastKey (centerToast (showAlert m ty (startMeasurement r s)))
           = Some (storedCycle (startMeasurement r s) @ '':'' @ ty @ '':'' @ m)"
proof -
  from reachable_store_inv [OF assms] obtain n where inv: "store_inv n s" ..
  then have cyc: "storedCycle s = show_int n"
    by (simp add: store_inv_def)
  have "nullish (dismissedAlerts s) Map.empty (dismissKey (show_int (n + 1)) ty m) \<noteq> Some True"
    using inv run_upto_next [of n ty m] by (auto simp add: store_inv_def)
  from alert_dedup_core [OF cyc this, of r] show ?thesis
    by (simp add: start_cycle [OF cyc])
qed


theorem alert_dedup_witness:
  "reachable page_ready
   \<and> \<not> acknowledged page_ready ''info'' ''Door open''
   \<and> acknowledged (toastClick (showAlert ''Door open'' ''info'' page_ready)) ''info'' ''Door open''
   \<and> showAlert ''Door open'' ''info'' (toastClick (showAlert ''Door open'' ''info'' page_ready))
       = toastClick (showAlert ''Door open'' ''info'' page_ready)
   \<and> map_option toastKey
        (centerToast (showAlert ''Door open'' ''info'' (startMeasurement RespOk page_ready)))
       = Some ''1:info:Door open''"
proof -
  have h3: "\<not> acknowledged page_ready ''info'' ''Door open''"
    by (simp add: acknowledged_def)
  have h4: "storedCycle (startMeasurement RespOk page_ready) @ '':'' @ ''info'' @ '':'' @ ''Door open''
              = ''1:info:Door open''"
    by code_simp
  note t = alert_dedup_by_run_key [OF reachable.loaded, of "''info''" "''Door open''" RespOk]
  note c = t [THEN conjunct2, THEN conjunct2, THEN conjunct1, THEN mp, OF h3]
  note k = t [THEN conjunct2, THEN conjunct2, THEN conjunct2, THEN conjunct2]
  show ?thesis
    apply (intro conjI)
        apply (rule reachable.loaded)
       apply (rule h3)
      apply (rule c [THEN conjunct2, THEN conjunct1])
     apply (rule c [THEN conjunct2, THEN conjunct2, THEN conjunct1])
    apply (rule trans [OF k])
    apply (simp only: h4)
    done
qed


end
